theory Spec2Isabelle
  imports Main "HOL-Library.AList"
begin

section \<open>The in-memory cache (src/utils/cache.ts)\<close>

text \<open>
  Instants are epoch milliseconds (\<open>Date.now()\<close>), modelled as \<open>int\<close>. The cache is a
  JavaScript \<open>Map\<close> from string keys to entries; it is modelled as an association list in
  insertion order, since \<open>delByTag\<close> iterates over it and counts what it removes.
  \<open>Date.now()\<close> is an explicit argument \<open>now\<close> of every operation that reads the clock.
\<close>

record 'v CacheEntry =
  data :: 'v
  expiresAt :: int
  entry_tags :: "string list"
  entry_createdAt :: int

record CacheOptions =
  ttl :: "int option"
  opt_tags :: "string list option"

type_synonym 'v InMemoryCache = "(string \<times> 'v CacheEntry) list"

definition defaultTtl :: int where
  "defaultTtl = 300"

text \<open>\<open>options.ttl || this.defaultTtl\<close>: an absent ttl and the falsy ttl 0 both give the default.\<close>

definition cache_set :: "int \<Rightarrow> string \<Rightarrow> 'v \<Rightarrow> CacheOptions \<Rightarrow> 'v InMemoryCache \<Rightarrow> 'v InMemoryCache" where
  "cache_set now key v options c =
     (let t = (case ttl options of None \<Rightarrow> defaultTtl | Some t \<Rightarrow> if t = 0 then defaultTtl else t);
          tgs = (case opt_tags options of None \<Rightarrow> [] | Some ts \<Rightarrow> ts)
      in AList.update key
           \<lparr>data = v, expiresAt = now + t * 1000, entry_tags = tgs, entry_createdAt = now\<rparr> c)"

text \<open>\<open>get\<close> returns the value or \<open>null\<close> (here \<open>None\<close>) together with the map it leaves behind.\<close>

definition cache_get :: "int \<Rightarrow> string \<Rightarrow> 'v InMemoryCache \<Rightarrow> 'v option \<times> 'v InMemoryCache" where
  "cache_get now key c =
     (case map_of c key of
        None \<Rightarrow> (None, c)
      | Some entry \<Rightarrow>
          if now > expiresAt entry then (None, AList.delete key c)
          else (Some (data entry), c))"

definition cache_del :: "string \<Rightarrow> 'v InMemoryCache \<Rightarrow> bool \<times> 'v InMemoryCache" where
  "cache_del key c = (map_of c key \<noteq> None, AList.delete key c)"

definition cache_delByTag :: "string \<Rightarrow> 'v InMemoryCache \<Rightarrow> nat \<times> 'v InMemoryCache" where
  "cache_delByTag tag c =
     (length (filter (\<lambda>(k, entry). tag \<in> set (entry_tags entry)) c),
      filter (\<lambda>(k, entry). tag \<notin> set (entry_tags entry)) c)"

section \<open>The cadence scheduler (computeNextSlots, getUpcomingSlots)\<close>

text \<open>
  The calendar library is outside the repository. The model covers its fixed-offset zones:
  \<open>timezone\<close> is the zone's offset from UTC in minutes, a calendar day is 24 hours, and a
  \<open>DateTime\<close> is an instant together with the zone it is read in. Daylight-saving rules are
  not modelled. An ISO string round-trips an instant at millisecond precision, so the
  \<open>nowISO\<close> argument is the instant itself.
\<close>

record CadenceConfig =
  intervalDays :: int
  publishHour :: int
  timezone :: int
  draftLeadHours :: int
  reminderHours :: "int option"

record ScheduleSlots =
  scheduledAt :: int
  createAt :: int

record DateTime =
  millis :: int
  zone :: int

definition msPerHour :: int where "msPerHour = 60 * 60 * 1000"
definition msPerDay :: int where "msPerDay = 24 * 60 * 60 * 1000"

definition localMillis :: "DateTime \<Rightarrow> int" where
  "localMillis dt = millis dt + zone dt * 60000"

definition startOfDay :: "DateTime \<Rightarrow> DateTime" where
  "startOfDay dt = dt\<lparr>millis := millis dt - localMillis dt mod msPerDay\<rparr>"

definition setHour :: "int \<Rightarrow> DateTime \<Rightarrow> DateTime" where
  "setHour h dt =
     dt\<lparr>millis := millis dt - ((localMillis dt mod msPerDay) div msPerHour) * msPerHour + h * msPerHour\<rparr>"

definition plusDays :: "int \<Rightarrow> DateTime \<Rightarrow> DateTime" where
  "plusDays d dt = dt\<lparr>millis := millis dt + d * msPerDay\<rparr>"

definition minusHours :: "int \<Rightarrow> DateTime \<Rightarrow> DateTime" where
  "minusHours h dt = dt\<lparr>millis := millis dt - h * msPerHour\<rparr>"

text \<open>JavaScript's \<open>%\<close> takes the sign of the dividend. (With divisor 0 it is \<open>NaN\<close>; a
  valid configuration has \<open>intervalDays\<close> at least 1.)\<close>

definition js_rem :: "int \<Rightarrow> int \<Rightarrow> int" where
  "js_rem a b = (if 0 \<le> a then a mod \<bar>b\<bar> else - ((- a) mod \<bar>b\<bar>))"

text \<open>\<open>Math.floor(nextPublish.toSeconds() / (24 * 60 * 60))\<close>: the floor of a real quotient of
  the millisecond count, which is integer floor division.\<close>

definition daysSinceEpoch :: "DateTime \<Rightarrow> int" where
  "daysSinceEpoch dt = millis dt div (1000 * (24 * 60 * 60))"

definition computeNextSlots :: "int \<Rightarrow> CadenceConfig \<Rightarrow> ScheduleSlots" where
  "computeNextSlots nowISO config =
     (let now = \<lparr>millis = nowISO, zone = timezone config\<rparr>;
          nextPublish0 = setHour (publishHour config) (startOfDay now);
          nextPublish1 = (if millis nextPublish0 \<le> millis now
                          then plusDays (intervalDays config) nextPublish0 else nextPublish0);
          intervalOffset = js_rem (daysSinceEpoch nextPublish1) (intervalDays config);
          nextPublish = (if intervalOffset \<noteq> 0
                         then plusDays (intervalDays config - intervalOffset) nextPublish1
                         else nextPublish1);
          createAtDt = minusHours (draftLeadHours config) nextPublish
      in \<lparr>scheduledAt = millis nextPublish, createAt = millis createAtDt\<rparr>)"

record UpcomingSlot =
  slot_publishAt :: int
  slot_createAt :: int

text \<open>The \<open>for\<close> loop of \<open>getUpcomingSlots\<close>: \<open>n\<close> iterations left, \<open>currentSlot\<close> carried along.
  \<open>DateTime.fromMillis(...).plus({days})\<close> runs in the process's own zone, also taken as a
  fixed-offset zone, so it adds whole 24-hour days.\<close>

fun upcomingLoop :: "CadenceConfig \<Rightarrow> nat \<Rightarrow> ScheduleSlots \<Rightarrow> UpcomingSlot list" where
  "upcomingLoop config 0 currentSlot = []"
| "upcomingLoop config (Suc n) currentSlot =
     \<lparr>slot_publishAt = scheduledAt currentSlot, slot_createAt = createAt currentSlot\<rparr>
     # upcomingLoop config n
         (computeNextSlots (scheduledAt currentSlot + intervalDays config * msPerDay) config)"

definition getUpcomingSlots :: "int \<Rightarrow> CadenceConfig \<Rightarrow> nat \<Rightarrow> UpcomingSlot list" where
  "getUpcomingSlots now config count = upcomingLoop config count (computeNextSlots now config)"

text \<open>\<open>validateCadenceConfig\<close> on a configuration with every field present. A fixed-offset
  zone always resolves, so the two time zone checks add no message. \<open>!x || x < 1\<close> on a
  number is \<open>x < 1\<close> (0 is falsy and below 1).\<close>

definition validateCadenceConfig :: "CadenceConfig \<Rightarrow> string list" where
  "validateCadenceConfig config =
     (if intervalDays config = 0 \<or> intervalDays config < 1
      then [''Interval days must be at least 1''] else [])
     @ (if publishHour config < 0 \<or> publishHour config > 23
        then [''Publish hour must be between 0 and 23''] else [])
     @ (if draftLeadHours config = 0 \<or> draftLeadHours config < 1
        then [''Draft lead hours must be at least 1''] else [])"

definition validCadenceConfig :: "CadenceConfig \<Rightarrow> bool" where
  "validCadenceConfig config = (validateCadenceConfig config = [])"

text \<open>A publish instant on the interval grid: at the publish hour of a day of the zone, on
  a day number (counted in UTC from the epoch) divisible by \<open>intervalDays\<close>, not before
  the epoch.\<close>

definition onGrid :: "CadenceConfig \<Rightarrow> int \<Rightarrow> bool" where
  "onGrid cfg p =
     ((p + timezone cfg * 60000) mod msPerDay = publishHour cfg * msPerHour
      \<and> (p div msPerDay) mod intervalDays cfg = 0 \<and> 0 \<le> p)"

section \<open>Data model (types/blog.ts)\<close>

datatype PostStatus =
  BRIEF | OUTLINE | DRAFT | NEEDS_REVIEW | APPROVED | SCHEDULED | PUBLISHED | REGENRATE

datatype IdeaStatus = UNUSED | PROCESSING | USED

datatype Priority = low | medium | high

datatype Difficulty = beginner | intermediate | advanced

record PostBrief =
  brief_topic :: string
  brief_persona :: string
  brief_goal :: string
  brief_targetAudience :: "string list option"
  keyPoints :: "string list option"

record OutlineSection =
  heading :: string
  subPoints :: "string list"
  section_keywords :: "string list"

record PostOutline =
  title :: string
  introduction :: string
  sections :: "OutlineSection list"
  conclusion :: string
  callToAction :: "string option"

record PostSEO =
  metaTitle :: string
  metaDescription :: string
  focusKeyword :: string
  seo_keywords :: "string list"
  slug :: string

record BlogImage =
  url :: string
  storagePath :: string
  filename :: string
  image_size :: int
  alt :: "string option"
  caption :: "string option"
  image_width :: "int option"
  image_height :: "int option"

record PostDraft =
  mdx :: string
  wordCount :: int
  estimatedReadTime :: int

text \<open>A stored instant that went through \<open>new Date(x).getTime()\<close> is a number of
  milliseconds, or \<open>NaN\<close> when \<open>x\<close> was \<open>undefined\<close>.\<close>

datatype stamp = Millis int | NaN

text \<open>A post document. \<open>null\<close> and an absent optional field are both \<open>None\<close>.\<close>

record BlogPost =
  post_id :: string
  status :: PostStatus
  post_scheduledAt :: "stamp option"
  publishedAt :: "int option"
  createdAt :: int
  updatedAt :: int
  post_ideaId :: string
  brief :: "PostBrief option"
  outline :: "PostOutline option"
  draft :: "PostDraft option"
  seo :: "PostSEO option"
  featuredImage :: "BlogImage option"
  images :: "BlogImage list option"
  tags :: "string list option"
  category :: "string option"
  publicUrl :: "string option"
  htmlContent :: "string option"
  errorMessage :: "string option"

text \<open>An idea document: the fields of \<open>BlogIdea\<close>, and the fields that \<open>updateIdea\<close>
  writes into the document beside them.\<close>

record BlogIdea =
  idea_id :: string
  idea_status :: IdeaStatus
  topic :: string
  persona :: string
  goal :: string
  targetAudience :: "string option"
  priority :: Priority
  difficulty :: "Difficulty option"
  idea_createdAt :: int
  idea_tags :: "string list option"
  idea_notes :: "string option"
  idea_updatedAt :: "int option"
  isBriefCreated :: "bool option"
  isApproved :: "bool option"
  isPublished :: "bool option"

text \<open>The body of a creation request. The interface \<open>CreatePostRequest\<close> has no status, but
  the validated body (\<open>createPostSchema\<close>) carries one; \<open>createPost\<close> never reads it.\<close>

record CreatePostRequest =
  c_status :: "PostStatus option"
  c_brief :: "PostBrief option"
  c_outline :: "PostOutline option"
  c_draft :: "PostDraft option"
  c_scheduledAt :: "int option"
  c_tags :: "string list option"
  c_category :: "string option"
  c_ideaId :: "string option"
  c_seo :: "PostSEO option"
  c_featuredImage :: "BlogImage option"
  c_images :: "BlogImage list option"
  c_publicUrl :: "string option"
  c_errorMessage :: "string option"

text \<open>The \<open>updates\<close> object of \<open>updatePost\<close>: the fields of \<open>UpdatePostRequest\<close>, and
  \<open>publishedAt\<close>, which \<open>updatePostStatus\<close> passes in its untyped \<open>updateData\<close>. That object
  also has an \<open>updatedAt\<close>, which \<open>updatePost\<close> overwrites.\<close>

record UpdatePostRequest =
  u_status :: "PostStatus option"
  u_brief :: "PostBrief option"
  u_outline :: "PostOutline option"
  u_draft :: "PostDraft option"
  u_seo :: "PostSEO option"
  u_featuredImage :: "BlogImage option"
  u_images :: "BlogImage list option"
  u_scheduledAt :: "stamp option"
  u_tags :: "string list option"
  u_category :: "string option"
  u_ideaId :: "string option"
  u_publicUrl :: "string option"
  u_errorMessage :: "string option"
  u_publishedAt :: "int option"

text \<open>\<open>scheduledAt\<close> of a status request is compared with \<open>null\<close>, so absent and \<open>null\<close>
  are kept apart.\<close>

datatype reqDate = Absent | Null | At int

record UpdatePostStatusRequest =
  s_status :: PostStatus
  s_scheduledAt :: reqDate
  s_errorMessage :: "string option"

record UpdateIdeaRequest =
  ui_topic :: "string option"
  ui_persona :: "string option"
  ui_goal :: "string option"
  ui_targetAudience :: "string option"
  ui_priority :: "Priority option"
  ui_difficulty :: "Difficulty option"
  ui_tags :: "string list option"
  ui_notes :: "string option"
  ui_status :: "IdeaStatus option"
  ui_isBriefCreated :: "bool option"
  ui_isApproved :: "bool option"
  ui_isPublished :: "bool option"

record IdeaFilters =
  f_status :: "IdeaStatus option"
  f_priority :: "Priority list option"
  f_tags :: "string list option"
  f_search :: "string option"

section \<open>Errors (middleware/errorHandler.ts)\<close>

text \<open>The \<open>AppError\<close> subclasses the services can throw, and \<open>OtherError\<close> for an exception
  that is not an \<open>AppError\<close> (a document store failure, a \<open>TypeError\<close>).
  \<open>NotFoundError\<close> carries its \<open>resource\<close> argument.\<close>

datatype error =
  ValidationError string
| NotFoundError string
| ConflictError string
| OtherError string

fun error_message :: "error \<Rightarrow> string" where
  "error_message (ValidationError m) = m"
| "error_message (NotFoundError resource) = resource @ '' not found''"
| "error_message (ConflictError m) = m"
| "error_message (OtherError m) = m"

fun error_code :: "error \<Rightarrow> string" where
  "error_code (ValidationError m) = ''VALIDATION_ERROR''"
| "error_code (NotFoundError resource) = ''NOT_FOUND''"
| "error_code (ConflictError m) = ''CONFLICT''"
| "error_code (OtherError m) = ''INTERNAL_ERROR''"

fun statusCode :: "error \<Rightarrow> nat" where
  "statusCode (ValidationError m) = 400"
| "statusCode (NotFoundError resource) = 404"
| "statusCode (ConflictError m) = 409"
| "statusCode (OtherError m) = 500"

section \<open>String helpers\<close>

text \<open>Strings are byte lists; \<open>trim\<close> and \<open>toLowerCase\<close> are modelled on ASCII.\<close>

definition isSpace :: "char \<Rightarrow> bool" where
  "isSpace c = ((of_char c :: nat) \<in> set [9, 10, 11, 12, 13, 32])"

definition trim :: "string \<Rightarrow> string" where
  "trim s = rev (dropWhile isSpace (rev (dropWhile isSpace s)))"

definition lowerChar :: "char \<Rightarrow> char" where
  "lowerChar c = (let n = (of_char c :: nat) in if 65 \<le> n \<and> n \<le> 90 then char_of (n + 32) else c)"

definition toLowerCase :: "string \<Rightarrow> string" where
  "toLowerCase s = map lowerChar s"

fun includes_str :: "string \<Rightarrow> string \<Rightarrow> bool" where
  "includes_str [] sub = (sub = [])"
| "includes_str (c # cs) sub = (take (length sub) (c # cs) = sub \<or> includes_str cs sub)"

definition quoted :: "string \<Rightarrow> string" where
  "quoted s = [CHR 0x27] @ s @ [CHR 0x27]"

fun joinWith :: "string \<Rightarrow> string list \<Rightarrow> string" where
  "joinWith sep [] = []"
| "joinWith sep [x] = x"
| "joinWith sep (x # y # ys) = x @ sep @ joinWith sep (y # ys)"

definition hexDigit :: "nat \<Rightarrow> char" where
  "hexDigit n = ''0123456789abcdef'' ! (n mod 16)"

definition jsonEscape :: "char \<Rightarrow> string" where
  "jsonEscape c =
     (let n = (of_char c :: nat) in
      if n = 0x22 then [CHR 0x5C, CHR 0x22]
      else if n = 0x5C then [CHR 0x5C, CHR 0x5C]
      else if n = 8 then [CHR 0x5C, CHR ''b'']
      else if n = 12 then [CHR 0x5C, CHR ''f'']
      else if n = 10 then [CHR 0x5C, CHR ''n'']
      else if n = 13 then [CHR 0x5C, CHR ''r'']
      else if n = 9 then [CHR 0x5C, CHR ''t'']
      else if n < 32 then [CHR 0x5C, CHR ''u'', CHR ''0'', CHR ''0'', hexDigit (n div 16), hexDigit n]
      else [c])"

definition jsonString :: "string \<Rightarrow> string" where
  "jsonString s = [CHR 0x22] @ concat (map jsonEscape s) @ [CHR 0x22]"

definition jsonArray :: "string list \<Rightarrow> string" where
  "jsonArray xs = ''['' @ joinWith '','' xs @ '']''"

fun postStatusName :: "PostStatus \<Rightarrow> string" where
  "postStatusName BRIEF = ''BRIEF''"
| "postStatusName OUTLINE = ''OUTLINE''"
| "postStatusName DRAFT = ''DRAFT''"
| "postStatusName NEEDS_REVIEW = ''NEEDS_REVIEW''"
| "postStatusName APPROVED = ''APPROVED''"
| "postStatusName SCHEDULED = ''SCHEDULED''"
| "postStatusName PUBLISHED = ''PUBLISHED''"
| "postStatusName REGENRATE = ''REGENRATE''"

fun ideaStatusName :: "IdeaStatus \<Rightarrow> string" where
  "ideaStatusName UNUSED = ''UNUSED''"
| "ideaStatusName PROCESSING = ''PROCESSING''"
| "ideaStatusName USED = ''USED''"

fun priorityName :: "Priority \<Rightarrow> string" where
  "priorityName low = ''low''"
| "priorityName medium = ''medium''"
| "priorityName high = ''high''"

text \<open>\<open>JSON.stringify(filters || {})\<close>: the members that are present, in the order status,
  priority, tags, search.\<close>

definition jsonMember :: "string \<Rightarrow> string option \<Rightarrow> string list" where
  "jsonMember name v = (case v of None \<Rightarrow> [] | Some j \<Rightarrow> [jsonString name @ '':'' @ j])"

definition stringifyFilters :: "IdeaFilters option \<Rightarrow> string" where
  "stringifyFilters filters =
     (case filters of
        None \<Rightarrow> ''{}''
      | Some f \<Rightarrow>
          ''{'' @ joinWith '',''
            (jsonMember ''status'' (map_option (\<lambda>st. jsonString (ideaStatusName st)) (f_status f))
             @ jsonMember ''priority''
                 (map_option (\<lambda>ps. jsonArray (map (\<lambda>p. jsonString (priorityName p)) ps)) (f_priority f))
             @ jsonMember ''tags'' (map_option (\<lambda>ts. jsonArray (map jsonString ts)) (f_tags f))
             @ jsonMember ''search'' (map_option jsonString (f_search f)))
          @ ''}'')"

section \<open>The service state and its effects\<close>

text \<open>
  The two document collections are association lists from document id to document, in
  the order in which the store returns documents with equal sort keys. The process-wide
  cache holds posts, ideas and idea lists under string keys. \<open>errlog\<close> collects the
  messages of \<open>logger.error\<close>; \<open>webhooks\<close> collects the post ids for which the regenerate
  webhook was fired (its outcome is not awaited).

  An operation runs at one instant \<open>now\<close>: every \<open>Date.now()\<close> inside it reads that value.
  Operations run one at a time; interleaving at \<open>await\<close> points is not modelled.
\<close>

datatype cached = CPost BlogPost | CIdea BlogIdea | CIdeas "BlogIdea list"

record state =
  posts :: "(string \<times> BlogPost) list"
  ideas :: "(string \<times> BlogIdea) list"
  cache :: "cached InMemoryCache"
  errlog :: "string list"
  webhooks :: "string list"

type_synonym 'a io = "state \<Rightarrow> (error + 'a) \<times> state"

definition ret :: "'a \<Rightarrow> 'a io" where
  "ret v s = (Inr v, s)"

definition throw :: "error \<Rightarrow> 'a io" where
  "throw e s = (Inl e, s)"

definition bind :: "'a io \<Rightarrow> ('a \<Rightarrow> 'b io) \<Rightarrow> 'b io" where
  "bind m f s = (case m s of (Inl e, s') \<Rightarrow> (Inl e, s') | (Inr v, s') \<Rightarrow> f v s')"

text \<open>\<open>try { ... } catch (error) { logger.error(msg, error); throw error; }\<close>\<close>

definition logged :: "string \<Rightarrow> 'a io \<Rightarrow> 'a io" where
  "logged msg m s =
     (case m s of
        (Inl e, s') \<Rightarrow> (Inl e, s'\<lparr>errlog := errlog s' @ [msg]\<rparr>)
      | (Inr v, s') \<Rightarrow> (Inr v, s'))"

definition CACHE_TTL :: int where
  "CACHE_TTL = 300"

definition invalidate :: "string \<Rightarrow> state \<Rightarrow> state" where
  "invalidate tag s = s\<lparr>cache := snd (cache_delByTag tag (cache s))\<rparr>"

section \<open>BlogIdeaService\<close>

text \<open>A cache hit on a value of another kind than the caller's cannot arise (each key
  prefix is written with one kind of value); the model gives it as a \<open>TypeError\<close>.\<close>

definition getIdeaById :: "int \<Rightarrow> string \<Rightarrow> BlogIdea io" where
  "getIdeaById now ideaId =
     logged ''Failed to get idea by ID:'' (\<lambda>s.
       let cacheKey = ''idea:'' @ ideaId in
       case cache_get now cacheKey (cache s) of
         (Some (CIdea idea), c) \<Rightarrow> (Inr idea, s\<lparr>cache := c\<rparr>)
       | (Some _, c) \<Rightarrow> (Inl (OtherError ''TypeError''), s\<lparr>cache := c\<rparr>)
       | (None, c) \<Rightarrow>
           (case map_of (ideas s) ideaId of
              None \<Rightarrow> (Inl (NotFoundError ''Idea''), s\<lparr>cache := c\<rparr>)
            | Some d \<Rightarrow>
                let idea = d\<lparr>idea_id := ideaId\<rparr> in
                (Inr idea,
                 s\<lparr>cache := cache_set now cacheKey (CIdea idea)
                              \<lparr>ttl = Some CACHE_TTL, opt_tags = Some [''ideas'']\<rparr> c\<rparr>)))"

text \<open>The comparator of a JavaScript \<open>sort\<close> returns a number, which may be \<open>NaN\<close>; the sort
  reads \<open>NaN\<close> as 0. The sort is stable, so it is the insertion sort that keeps elements
  that compare as equal in their order.\<close>

datatype jsNumber = JsNum int | JsNaN

fun insertBy :: "('a \<Rightarrow> 'a \<Rightarrow> jsNumber) \<Rightarrow> 'a \<Rightarrow> 'a list \<Rightarrow> 'a list" where
  "insertBy cmp x [] = [x]"
| "insertBy cmp x (y # ys) =
     (if (case cmp x y of JsNum v \<Rightarrow> v \<le> 0 | JsNaN \<Rightarrow> True) then x # y # ys
      else y # insertBy cmp x ys)"

definition sortBy :: "('a \<Rightarrow> 'a \<Rightarrow> jsNumber) \<Rightarrow> 'a list \<Rightarrow> 'a list" where
  "sortBy cmp xs = foldr (insertBy cmp) xs []"

text \<open>\<open>orderBy("createdAt", "desc")\<close> over the whole collection, each document read as
  \<open>{...doc.data(), id: doc.id}\<close>.\<close>

definition queryIdeasByCreatedAtDesc :: "state \<Rightarrow> BlogIdea list" where
  "queryIdeasByCreatedAtDesc s =
     sortBy (\<lambda>a b. JsNum (idea_createdAt b - idea_createdAt a))
       (map (\<lambda>(k, d). d\<lparr>idea_id := k\<rparr>) (ideas s))"

definition getAllIdeas :: "int \<Rightarrow> IdeaFilters option \<Rightarrow> BlogIdea list io" where
  "getAllIdeas now filters =
     logged ''Failed to get ideas:'' (\<lambda>s.
       let cacheKey = ''ideas:all:'' @ stringifyFilters filters in
       case cache_get now cacheKey (cache s) of
         (Some (CIdeas xs), c) \<Rightarrow> (Inr xs, s\<lparr>cache := c\<rparr>)
       | (Some _, c) \<Rightarrow> (Inl (OtherError ''TypeError''), s\<lparr>cache := c\<rparr>)
       | (None, c) \<Rightarrow>
           let ideas0 = queryIdeasByCreatedAtDesc s;
               ideas1 = (case Option.bind filters f_priority of
                           None \<Rightarrow> ideas0
                         | Some ps \<Rightarrow> if ps = [] then ideas0
                                      else filter (\<lambda>idea. priority idea \<in> set ps) ideas0);
               ideas2 = (case Option.bind filters f_tags of
                           None \<Rightarrow> ideas1
                         | Some ts \<Rightarrow> if ts = [] then ideas1
                                      else filter (\<lambda>idea. case idea_tags idea of
                                                      None \<Rightarrow> False
                                                    | Some its \<Rightarrow> list_ex (\<lambda>tag. toLowerCase tag \<in> set ts) its)
                                             ideas1);
               ideas3 = (case Option.bind filters f_search of
                           None \<Rightarrow> ideas2
                         | Some q \<Rightarrow> if q = [] then ideas2
                                     else let searchLower = toLowerCase q in
                                          filter (\<lambda>idea. includes_str (toLowerCase (topic idea)) searchLower
                                                       \<or> includes_str (toLowerCase (goal idea)) searchLower
                                                       \<or> includes_str (toLowerCase (persona idea)) searchLower)
                                            ideas2)
           in (Inr ideas3,
               s\<lparr>cache := cache_set now cacheKey (CIdeas ideas3)
                            \<lparr>ttl = Some CACHE_TTL, opt_tags = Some [''ideas'']\<rparr> c\<rparr>))"

definition unusedFilter :: "IdeaFilters option" where
  "unusedFilter = Some \<lparr>f_status = Some UNUSED, f_priority = None, f_tags = None, f_search = None\<rparr>"

definition getUnusedIdeas :: "int \<Rightarrow> BlogIdea list io" where
  "getUnusedIdeas now = getAllIdeas now unusedFilter"

text \<open>\<open>ideaRef.update({ status })\<close>: the store rejects an update of a missing document.\<close>

definition updateIdeaStatus :: "string \<Rightarrow> IdeaStatus \<Rightarrow> unit io" where
  "updateIdeaStatus ideaId st =
     logged ''Failed to update idea status:'' (\<lambda>s.
       case map_of (ideas s) ideaId of
         None \<Rightarrow> (Inl (OtherError ''NOT_FOUND''), s)
       | Some d \<Rightarrow> (Inr (), s\<lparr>ideas := AList.update ideaId (d\<lparr>idea_status := st\<rparr>) (ideas s)\<rparr>))"

fun priorityOrder :: "Priority \<Rightarrow> int" where
  "priorityOrder high = 3"
| "priorityOrder medium = 2"
| "priorityOrder low = 1"

text \<open>The comparator of \<open>pickNextIdea\<close>. When the priorities are equal it returns
  \<open>a.createdAt?.getTime?.() - b.createdAt?.getTime?.()\<close>. A \<open>createdAt\<close> read back from the
  document store is the store's timestamp object, which has no \<open>getTime\<close>; both optional
  calls give \<open>undefined\<close>, and the difference is \<open>NaN\<close>.\<close>

definition compareIdeas :: "BlogIdea \<Rightarrow> BlogIdea \<Rightarrow> jsNumber" where
  "compareIdeas a b =
     (let priorityDiff = priorityOrder (priority b) - priorityOrder (priority a) in
      if priorityDiff \<noteq> 0 then JsNum priorityDiff else JsNaN)"

text \<open>\<open>unusedIdeas.sort(...)\<close> sorts in place the array that \<open>getAllIdeas\<close> returned, which is
  the array object held by the cache entry: the entry's data is sorted with it.\<close>

definition pickNextIdea :: "int \<Rightarrow> BlogIdea option io" where
  "pickNextIdea now =
     logged ''Failed to pick next idea:''
       (bind (getUnusedIdeas now) (\<lambda>unusedIdeas s.
          if unusedIdeas = [] then (Inr None, s)
          else
            let sorted = sortBy compareIdeas unusedIdeas;
                s1 = s\<lparr>cache := AList.map_entry (''ideas:all:'' @ stringifyFilters unusedFilter)
                                     (\<lambda>entry. entry\<lparr>data := CIdeas sorted\<rparr>) (cache s)\<rparr>
            in case sorted of
                 [] \<Rightarrow> (Inr None, s1)
               | selectedIdea # rest \<Rightarrow>
                   bind (updateIdeaStatus (idea_id selectedIdea) PROCESSING)
                     (\<lambda>_. ret (Some selectedIdea)) s1))"

definition markIdeaAsUsed :: "string \<Rightarrow> unit io" where
  "markIdeaAsUsed ideaId =
     logged ''Failed to mark idea as used:'' (\<lambda>s.
       case map_of (ideas s) ideaId of
         None \<Rightarrow> (Inl (NotFoundError ''Idea''), s)
       | Some ideaData \<Rightarrow>
           if idea_status ideaData = USED then (Inl (ValidationError ''Idea is already used''), s)
           else if idea_status ideaData = PROCESSING
             then (Inl (ValidationError ''Idea is already processing''), s)
           else (Inr (), invalidate ''ideas''
                   (s\<lparr>ideas := AList.update ideaId (ideaData\<lparr>idea_status := USED\<rparr>) (ideas s)\<rparr>)))"

definition applyIdeaUpdate :: "UpdateIdeaRequest \<Rightarrow> int \<Rightarrow> BlogIdea \<Rightarrow> BlogIdea" where
  "applyIdeaUpdate updates now d =
     d\<lparr>topic := (case ui_topic updates of None \<Rightarrow> topic d | Some v \<Rightarrow> trim v),
       persona := (case ui_persona updates of None \<Rightarrow> persona d | Some v \<Rightarrow> trim v),
       goal := (case ui_goal updates of None \<Rightarrow> goal d | Some v \<Rightarrow> trim v),
       targetAudience := (case ui_targetAudience updates of None \<Rightarrow> targetAudience d | Some v \<Rightarrow> Some (trim v)),
       priority := (case ui_priority updates of None \<Rightarrow> priority d | Some v \<Rightarrow> v),
       difficulty := (case ui_difficulty updates of None \<Rightarrow> difficulty d | Some v \<Rightarrow> Some v),
       idea_tags := (case ui_tags updates of None \<Rightarrow> idea_tags d
                     | Some ts \<Rightarrow> Some (map (\<lambda>tag. toLowerCase (trim tag)) ts)),
       idea_notes := (case ui_notes updates of None \<Rightarrow> idea_notes d | Some v \<Rightarrow> Some (trim v)),
       idea_status := (case ui_status updates of None \<Rightarrow> idea_status d | Some v \<Rightarrow> v),
       isBriefCreated := (case ui_isBriefCreated updates of None \<Rightarrow> isBriefCreated d | Some v \<Rightarrow> Some v),
       isApproved := (case ui_isApproved updates of None \<Rightarrow> isApproved d | Some v \<Rightarrow> Some v),
       isPublished := (case ui_isPublished updates of None \<Rightarrow> isPublished d | Some v \<Rightarrow> Some v),
       idea_updatedAt := Some now\<rparr>"

definition updateIdea :: "int \<Rightarrow> string \<Rightarrow> UpdateIdeaRequest \<Rightarrow> BlogIdea io" where
  "updateIdea now ideaId updates =
     logged ''Failed to update idea:'' (\<lambda>s.
       case map_of (ideas s) ideaId of
         None \<Rightarrow> (Inl (NotFoundError ''Idea''), s)
       | Some d \<Rightarrow>
           let d' = applyIdeaUpdate updates now d;
               updatedIdea = d'\<lparr>idea_id := ideaId\<rparr>
           in (Inr updatedIdea, invalidate ''ideas'' (s\<lparr>ideas := AList.update ideaId d' (ideas s)\<rparr>)))"

definition deleteIdea :: "string \<Rightarrow> unit io" where
  "deleteIdea ideaId =
     logged ''Failed to delete idea:'' (\<lambda>s.
       case map_of (ideas s) ideaId of
         None \<Rightarrow> (Inl (NotFoundError ''Idea''), s)
       | Some ideaData \<Rightarrow>
           if idea_status ideaData = USED
             then (Inl (ValidationError ''Cannot delete an idea that has been used''), s)
           else (Inr (), invalidate ''ideas'' (s\<lparr>ideas := AList.delete ideaId (ideas s)\<rparr>)))"

section \<open>BlogPostService\<close>

text \<open>\<open>x || null\<close> and \<open>x && {...}\<close> on an optional string: the empty string is falsy.\<close>

definition truthyString :: "string option \<Rightarrow> string option" where
  "truthyString v = (case v of None \<Rightarrow> None | Some x \<Rightarrow> if x = [] then None else Some x)"

text \<open>\<open>randomUUID()\<close> is the argument \<open>uuid\<close>. The validated \<open>scheduledAt\<close> is a number of
  milliseconds; \<open>postData.scheduledAt || null\<close> turns 0 into \<open>null\<close>.\<close>

definition createPost :: "int \<Rightarrow> string \<Rightarrow> CreatePostRequest \<Rightarrow> BlogPost io" where
  "createPost now uuid postData =
     logged ''Failed to create blog post:'' (\<lambda>s.
       let post = \<lparr>post_id = uuid,
                   status = BRIEF,
                   post_scheduledAt = (case c_scheduledAt postData of
                                         None \<Rightarrow> None
                                       | Some t \<Rightarrow> if t = 0 then None else Some (Millis t)),
                   publishedAt = None,
                   createdAt = now,
                   updatedAt = now,
                   post_ideaId = (case c_ideaId postData of None \<Rightarrow> [] | Some i \<Rightarrow> i),
                   brief = c_brief postData,
                   outline = c_outline postData,
                   draft = c_draft postData,
                   seo = c_seo postData,
                   featuredImage = c_featuredImage postData,
                   images = c_images postData,
                   tags = c_tags postData,
                   category = truthyString (c_category postData),
                   publicUrl = truthyString (c_publicUrl postData),
                   htmlContent = None,
                   errorMessage = truthyString (c_errorMessage postData)\<rparr>
       in (Inr post, invalidate ''posts'' (s\<lparr>posts := AList.update (post_id post) post (posts s)\<rparr>)))"

definition getPostById :: "int \<Rightarrow> string \<Rightarrow> BlogPost io" where
  "getPostById now postId =
     logged ''Failed to get post by ID:'' (\<lambda>s.
       let cacheKey = ''post:'' @ postId in
       case cache_get now cacheKey (cache s) of
         (Some (CPost post), c) \<Rightarrow> (Inr post, s\<lparr>cache := c\<rparr>)
       | (Some _, c) \<Rightarrow> (Inl (OtherError ''TypeError''), s\<lparr>cache := c\<rparr>)
       | (None, c) \<Rightarrow>
           (case map_of (posts s) postId of
              None \<Rightarrow> (Inl (NotFoundError (''Post with ID '' @ quoted postId @ '' not found'')),
                        s\<lparr>cache := c\<rparr>)
            | Some d \<Rightarrow>
                let post = d\<lparr>post_id := postId\<rparr> in
                (Inr post,
                 s\<lparr>cache := cache_set now cacheKey (CPost post)
                              \<lparr>ttl = Some CACHE_TTL, opt_tags = Some [''posts'']\<rparr> c\<rparr>)))"

text \<open>\<open>postDoc.data()?.ideaId\<close> is \<open>undefined\<close> for a missing document; \<open>!ideaId\<close> holds for
  \<open>undefined\<close> and for the empty string.\<close>

definition getIdeaByPostId :: "int \<Rightarrow> string \<Rightarrow> BlogIdea io" where
  "getIdeaByPostId now postId s =
     (let docIdeaId = (case map_of (posts s) postId of None \<Rightarrow> [] | Some d \<Rightarrow> post_ideaId d) in
      if docIdeaId = []
        then (Inl (NotFoundError (''Post with ID '' @ quoted postId @ '' has no idea ID'')), s)
      else getIdeaById now docIdeaId s)"

fun validTransitions :: "PostStatus \<Rightarrow> PostStatus list" where
  "validTransitions BRIEF = [OUTLINE, DRAFT, REGENRATE]"
| "validTransitions OUTLINE = [DRAFT, BRIEF, REGENRATE, NEEDS_REVIEW]"
| "validTransitions DRAFT = [NEEDS_REVIEW, OUTLINE, REGENRATE]"
| "validTransitions NEEDS_REVIEW = [APPROVED, DRAFT, REGENRATE]"
| "validTransitions APPROVED = [SCHEDULED, PUBLISHED, DRAFT, REGENRATE]"
| "validTransitions SCHEDULED = [PUBLISHED, APPROVED, REGENRATE]"
| "validTransitions PUBLISHED = [PUBLISHED, REGENRATE]"
| "validTransitions REGENRATE = [BRIEF, OUTLINE, DRAFT, NEEDS_REVIEW]"

definition validateStatusTransition :: "PostStatus \<Rightarrow> PostStatus \<Rightarrow> error + unit" where
  "validateStatusTransition currentStatus newStatus =
     (if newStatus \<in> set (validTransitions currentStatus) then Inr ()
      else Inl (ValidationError (''Invalid status transition from '' @ postStatusName currentStatus
                                  @ '' to '' @ postStatusName newStatus)))"

definition liftResult :: "error + 'a \<Rightarrow> 'a io" where
  "liftResult r s = (r, s)"

text \<open>\<open>postRef.update({...updates, updatedAt: Date.now()})\<close>: the fields present in
  \<open>updates\<close> replace the document's.\<close>

definition applyPostUpdate :: "UpdatePostRequest \<Rightarrow> int \<Rightarrow> BlogPost \<Rightarrow> BlogPost" where
  "applyPostUpdate updates now d =
     d\<lparr>status := (case u_status updates of None \<Rightarrow> status d | Some v \<Rightarrow> v),
       brief := (case u_brief updates of None \<Rightarrow> brief d | Some v \<Rightarrow> Some v),
       outline := (case u_outline updates of None \<Rightarrow> outline d | Some v \<Rightarrow> Some v),
       draft := (case u_draft updates of None \<Rightarrow> draft d | Some v \<Rightarrow> Some v),
       seo := (case u_seo updates of None \<Rightarrow> seo d | Some v \<Rightarrow> Some v),
       featuredImage := (case u_featuredImage updates of None \<Rightarrow> featuredImage d | Some v \<Rightarrow> Some v),
       images := (case u_images updates of None \<Rightarrow> images d | Some v \<Rightarrow> Some v),
       post_scheduledAt := (case u_scheduledAt updates of None \<Rightarrow> post_scheduledAt d | Some v \<Rightarrow> Some v),
       tags := (case u_tags updates of None \<Rightarrow> tags d | Some v \<Rightarrow> Some v),
       category := (case u_category updates of None \<Rightarrow> category d | Some v \<Rightarrow> Some v),
       post_ideaId := (case u_ideaId updates of None \<Rightarrow> post_ideaId d | Some v \<Rightarrow> v),
       publicUrl := (case u_publicUrl updates of None \<Rightarrow> publicUrl d | Some v \<Rightarrow> Some v),
       errorMessage := (case u_errorMessage updates of None \<Rightarrow> errorMessage d | Some v \<Rightarrow> Some v),
       publishedAt := (case u_publishedAt updates of None \<Rightarrow> publishedAt d | Some v \<Rightarrow> Some v),
       updatedAt := now\<rparr>"

definition noIdeaUpdate :: UpdateIdeaRequest where
  "noIdeaUpdate =
     \<lparr>ui_topic = None, ui_persona = None, ui_goal = None, ui_targetAudience = None,
      ui_priority = None, ui_difficulty = None, ui_tags = None, ui_notes = None,
      ui_status = None, ui_isBriefCreated = None, ui_isApproved = None, ui_isPublished = None\<rparr>"

text \<open>\<open>updatePost\<close>. The document read back after the writes (\<open>updatedDoc\<close>) is the document
  just written, \<open>d2\<close>. The regenerate webhook is fired and not awaited.\<close>

definition updatePost :: "int \<Rightarrow> string \<Rightarrow> UpdatePostRequest \<Rightarrow> BlogPost io" where
  "updatePost now postId updates =
     logged ''Failed to update post:'' (\<lambda>s.
       let postDoc = map_of (posts s) postId in
       bind (getIdeaByPostId now postId) (\<lambda>idea s1.
         case postDoc of
           None \<Rightarrow> (Inl (NotFoundError (''Post with ID '' @ quoted postId @ '' not found'')), s1)
         | Some d \<Rightarrow>
             let currentPost = d\<lparr>post_id := postId\<rparr> in
             bind (liftResult
                     (case u_status updates of
                        None \<Rightarrow> Inr ()
                      | Some st \<Rightarrow> if st \<noteq> status currentPost
                                    then validateStatusTransition (status currentPost) st
                                    else Inr ()))
               (\<lambda>_ s2.
                  let d1 = applyPostUpdate updates now d;
                      s3 = s2\<lparr>posts := AList.update postId d1 (posts s2)\<rparr>;
                      autoAdvance = (u_outline updates \<noteq> None \<and> status currentPost = BRIEF);
                      d2 = (if autoAdvance then d1\<lparr>status := OUTLINE\<rparr> else d1)
                  in bind (if autoAdvance
                           then bind (\<lambda>t. (Inr (), t\<lparr>posts := AList.update postId d2 (posts t)\<rparr>))
                                  (\<lambda>_. bind (updateIdea now (idea_id idea)
                                                (noIdeaUpdate\<lparr>ui_isBriefCreated := Some True\<rparr>))
                                         (\<lambda>_. ret ()))
                           else ret ())
                       (\<lambda>_ s4.
                          let updatedPost = d2\<lparr>post_id := postId\<rparr>;
                              s5 = invalidate ''posts'' s4;
                              s6 = s5\<lparr>cache := snd (cache_del (''post:'' @ postId) (cache s5))\<rparr>
                          in bind (if status updatedPost = PUBLISHED
                                   then updateIdeaStatus (idea_id idea) USED else ret ())
                               (\<lambda>_ s7.
                                  (Inr updatedPost,
                                   if u_status updates = Some REGENRATE
                                   then s7\<lparr>webhooks := webhooks s7 @ [postId]\<rparr> else s7))
                               s6)
                       s3)
               s1)
         s)"

text \<open>The inner \<open>try\<close>/\<open>catch\<close> of \<open>updatePostStatus\<close> around \<open>markIdeaAsUsed\<close>: a failure
  is logged and not rethrown.\<close>

definition markIdeaAsUsedBestEffort :: "string \<Rightarrow> unit io" where
  "markIdeaAsUsedBestEffort ideaId s =
     (case markIdeaAsUsed ideaId s of
        (Inl e, s') \<Rightarrow> (Inr (), s'\<lparr>errlog := errlog s' @ [''Failed to mark idea as used'']\<rparr>)
      | (Inr v, s') \<Rightarrow> (Inr (), s'))"

text \<open>The \<open>updateData\<close> object that \<open>updatePostStatus\<close> builds for a post read with status
  \<open>current\<close>. \<open>new Date(undefined).getTime()\<close> is \<open>NaN\<close>.\<close>

definition statusUpdateData :: "int \<Rightarrow> PostStatus \<Rightarrow> UpdatePostStatusRequest \<Rightarrow> UpdatePostRequest" where
  "statusUpdateData now current statusUpdate =
     \<lparr>u_status = Some (s_status statusUpdate),
      u_brief = None, u_outline = None, u_draft = None, u_seo = None,
      u_featuredImage = None, u_images = None,
      u_scheduledAt = (case s_scheduledAt statusUpdate of
                         Null \<Rightarrow> None | Absent \<Rightarrow> Some NaN | At t \<Rightarrow> Some (Millis t)),
      u_tags = None, u_category = None, u_ideaId = None, u_publicUrl = None,
      u_errorMessage = s_errorMessage statusUpdate,
      u_publishedAt = (if s_status statusUpdate = PUBLISHED \<and> current \<noteq> PUBLISHED
                       then Some now else None)\<rparr>"

definition updatePostStatus :: "int \<Rightarrow> string \<Rightarrow> UpdatePostStatusRequest \<Rightarrow> BlogPost io" where
  "updatePostStatus now postId statusUpdate =
     logged ''Failed to update post status:''
       (bind (getPostById now postId) (\<lambda>post.
          bind (liftResult (validateStatusTransition (status post) (s_status statusUpdate))) (\<lambda>_.
            bind (if s_status statusUpdate = PUBLISHED \<and> status post \<noteq> PUBLISHED
                     \<and> post_ideaId post \<noteq> []
                  then markIdeaAsUsedBestEffort (post_ideaId post) else ret ())
              (\<lambda>_. updatePost now postId (statusUpdateData now (status post) statusUpdate)))))"

definition publishPost :: "int \<Rightarrow> string \<Rightarrow> BlogPost io" where
  "publishPost now postId =
     logged ''Failed to publish post:''
       (bind (getPostById now postId) (\<lambda>post.
          bind (getIdeaByPostId now postId) (\<lambda>idea.
            if status post \<noteq> APPROVED \<and> status post \<noteq> SCHEDULED
            then throw (ValidationError ''Only approved or scheduled posts can be published'')
            else bind (updateIdea now (idea_id idea) (noIdeaUpdate\<lparr>ui_status := Some USED\<rparr>))
                   (\<lambda>_. updatePostStatus now postId
                           \<lparr>s_status = PUBLISHED, s_scheduledAt = At now, s_errorMessage = None\<rparr>))))"

definition deletePost :: "int \<Rightarrow> string \<Rightarrow> unit io" where
  "deletePost now postId =
     logged ''Failed to delete post:''
       (bind (getPostById now postId) (\<lambda>post s.
          if status post = PUBLISHED
          then (Inl (ValidationError ''Cannot delete a published post''), s)
          else let s1 = invalidate ''posts'' (s\<lparr>posts := AList.delete postId (posts s)\<rparr>)
               in (Inr (), s1\<lparr>cache := snd (cache_del (''post:'' @ postId) (cache s1))\<rparr>)))"

section \<open>Cache entries that answer an idea lookup\<close>

text \<open>The entries under the key of idea \<open>iid\<close> that have not expired at \<open>now\<close>, and what
  \<open>getIdeaById\<close> writes under that key: an idea carrying that id.\<close>

definition liveIdeaEntries :: "int \<Rightarrow> string \<Rightarrow> state \<Rightarrow> cached CacheEntry list" where
  "liveIdeaEntries now iid s =
     map snd (filter (\<lambda>(k, entry). k = ''idea:'' @ iid \<and> now \<le> expiresAt entry) (cache s))"

definition holdsIdea :: "string \<Rightarrow> cached CacheEntry \<Rightarrow> bool" where
  "holdsIdea iid entry = (case data entry of CIdea x \<Rightarrow> idea_id x = iid | _ \<Rightarrow> False)"

section \<open>The transition table of the specification\<close>

text \<open>The allowed (current, target) pairs as section 4.1 of the specification lists them.
  The specification writes REGENERATE for the status that the code spells \<open>REGENRATE\<close>.\<close>

definition spec_transition_table :: "(PostStatus \<times> PostStatus) list" where
  "spec_transition_table =
     [(BRIEF, OUTLINE), (BRIEF, DRAFT), (BRIEF, REGENRATE),
      (OUTLINE, DRAFT), (OUTLINE, BRIEF), (OUTLINE, REGENRATE), (OUTLINE, NEEDS_REVIEW),
      (DRAFT, NEEDS_REVIEW), (DRAFT, OUTLINE), (DRAFT, REGENRATE),
      (NEEDS_REVIEW, APPROVED), (NEEDS_REVIEW, DRAFT), (NEEDS_REVIEW, REGENRATE),
      (APPROVED, SCHEDULED), (APPROVED, PUBLISHED), (APPROVED, DRAFT), (APPROVED, REGENRATE),
      (SCHEDULED, PUBLISHED), (SCHEDULED, APPROVED), (SCHEDULED, REGENRATE),
      (PUBLISHED, PUBLISHED), (PUBLISHED, REGENRATE),
      (REGENRATE, BRIEF), (REGENRATE, OUTLINE), (REGENRATE, DRAFT), (REGENRATE, NEEDS_REVIEW)]"

section \<open>Concrete configurations and states\<close>

definition dailyAtNine :: CadenceConfig where
  "dailyAtNine =
     \<lparr>intervalDays = 1, publishHour = 9, timezone = 0, draftLeadHours = 1, reminderHours = None\<rparr>"


definition usedIdea :: BlogIdea where
  "usedIdea =
     \<lparr>idea_id = ''i1'', idea_status = USED, topic = ''X'', persona = ''dev'', goal = ''teach'',
      targetAudience = None, priority = high, difficulty = None, idea_createdAt = 1,
      idea_tags = None, idea_notes = None, idea_updatedAt = None, isBriefCreated = None,
      isApproved = None, isPublished = None\<rparr>"

definition freshIdea :: BlogIdea where
  "freshIdea =
     \<lparr>idea_id = ''i2'', idea_status = UNUSED, topic = ''Y'', persona = ''dev'', goal = ''teach'',
      targetAudience = None, priority = low, difficulty = None, idea_createdAt = 2,
      idea_tags = None, idea_notes = None, idea_updatedAt = None, isBriefCreated = None,
      isApproved = None, isPublished = None\<rparr>"

definition heldIdea :: BlogIdea where
  "heldIdea = freshIdea\<lparr>idea_status := PROCESSING\<rparr>"

definition draftPost :: BlogPost where
  "draftPost =
     \<lparr>post_id = ''p1'', status = DRAFT, post_scheduledAt = None, publishedAt = None,
      createdAt = 10, updatedAt = 10, post_ideaId = ''i2'', brief = None, outline = None,
      draft = Some \<lparr>mdx = ''text'', wordCount = 1, estimatedReadTime = 1\<rparr>, seo = None,
      featuredImage = None, images = None, tags = None, category = None, publicUrl = None,
      htmlContent = None, errorMessage = None\<rparr>"

definition approvedPost :: BlogPost where
  "approvedPost = draftPost\<lparr>status := APPROVED\<rparr>"

definition publishedPost :: BlogPost where
  "publishedPost = draftPost\<lparr>status := PUBLISHED, publishedAt := Some 50\<rparr>"

definition orphanPost :: BlogPost where
  "orphanPost = draftPost\<lparr>post_ideaId := []\<rparr>"

definition storeWith :: "BlogPost \<Rightarrow> BlogIdea \<Rightarrow> state" where
  "storeWith p i =
     \<lparr>posts = [(''p1'', p)], ideas = [(idea_id i, i)], cache = [], errlog = [], webhooks = []\<rparr>"

definition twoIdeas :: state where
  "twoIdeas =
     \<lparr>posts = [], ideas = [(''i1'', usedIdea), (''i2'', freshIdea)], cache = [],
      errlog = [], webhooks = []\<rparr>"

definition cachedIdea :: state where
  "cachedIdea =
     \<lparr>posts = [], ideas = [(''i2'', freshIdea)],
      cache = [(''idea:i2'', \<lparr>data = CIdea freshIdea, expiresAt = 300000,
                               entry_tags = [''ideas''], entry_createdAt = 0\<rparr>)],
      errlog = [], webhooks = []\<rparr>"

definition briefPost :: BlogPost where
  "briefPost = draftPost\<lparr>status := BRIEF\<rparr>"

definition sameStatusRequest :: UpdatePostStatusRequest where
  "sameStatusRequest = \<lparr>s_status = BRIEF, s_scheduledAt = Null, s_errorMessage = None\<rparr>"

definition outlineRequest :: UpdatePostStatusRequest where
  "outlineRequest = \<lparr>s_status = OUTLINE, s_scheduledAt = Null, s_errorMessage = None\<rparr>"

definition publishRequest :: UpdatePostStatusRequest where
  "publishRequest = \<lparr>s_status = PUBLISHED, s_scheduledAt = Absent, s_errorMessage = None\<rparr>"

definition firstPublished :: BlogPost where
  "firstPublished =
     approvedPost\<lparr>status := PUBLISHED, post_scheduledAt := Some NaN, publishedAt := Some 100,
                  updatedAt := 100\<rparr>"

definition afterFirstPublish :: state where
  "afterFirstPublish = snd (updatePostStatus 100 ''p1'' publishRequest (storeWith approvedPost heldIdea))"

definition publishedNow :: BlogPost where
  "publishedNow =
     approvedPost\<lparr>status := PUBLISHED, post_scheduledAt := Some (Millis 100),
                  publishedAt := Some 100, updatedAt := 100\<rparr>"

definition orphanBrief :: BlogPost where
  "orphanBrief = briefPost\<lparr>post_ideaId := []\<rparr>"

definition strayPost :: BlogPost where
  "strayPost = briefPost\<lparr>post_ideaId := ''gone''\<rparr>"

definition warmStore :: state where
  "warmStore =
     snd (getIdeaByPostId 50 ''p1'' (snd (getPostById 50 ''p1'' (storeWith briefPost freshIdea))))"

definition emptyRequest :: CreatePostRequest where
  "emptyRequest =
     \<lparr>c_status = None, c_brief = None, c_outline = None, c_draft = None, c_scheduledAt = None,
      c_tags = None, c_category = None, c_ideaId = None, c_seo = None, c_featuredImage = None,
      c_images = None, c_publicUrl = None, c_errorMessage = None\<rparr>"

definition emptyStore :: state where
  "emptyStore = \<lparr>posts = [], ideas = [], cache = [], errlog = [], webhooks = []\<rparr>"

definition afterCreate :: state where
  "afterCreate = snd (createPost 10 ''p1'' emptyRequest emptyStore)"

definition tiedIdeas :: state where
  "tiedIdeas =
     \<lparr>posts = [],
      ideas = [(''old'', freshIdea\<lparr>idea_id := ''old'', idea_createdAt := 1\<rparr>),
               (''new'', freshIdea\<lparr>idea_id := ''new'', idea_createdAt := 2\<rparr>)],
      cache = [], errlog = [], webhooks = []\<rparr>"

section \<open>The cache\<close>



section \<open>The cadence scheduler\<close>

text \<open>
  C7. \<open>getUpcomingSlots\<close> is meant to list consecutive slots of the interval grid. It asks
  \<open>computeNextSlots\<close> for the slot after the instant \<open>previous publishAt + intervalDays\<close>,
  which is itself a slot; \<open>computeNextSlots\<close> treats a candidate equal to "now" as passed
  and moves on by another interval. For the valid configuration "every day at 09:00 UTC",
  asked at 10:00 on day 0 for two slots, the result is day 1 at 09:00 and day 3 at 09:00:
  the slot of day 2 is skipped.
\<close>

theorem getUpcomingSlots_skips_a_slot:
  "validCadenceConfig dailyAtNine
   \<and> map slot_publishAt (getUpcomingSlots (10 * msPerHour) dailyAtNine 2)
       = [1 * msPerDay + 9 * msPerHour, 3 * msPerDay + 9 * msPerHour]"
  by code_simp

text \<open>
  The skip is systematic. For every valid configuration and every instant from the
  epoch on, the first slot lies on the grid, the slot computed from a grid slot plus
  \<open>intervalDays\<close> is two intervals later, and so the k-th publish instant of
  \<open>getUpcomingSlots\<close> is the first one plus k times twice the interval.
\<close>

lemma setHour_startOfDay:
  "setHour h (startOfDay \<lparr>millis = n, zone = z\<rparr>)
     = \<lparr>millis = n - (n + z * 60000) mod msPerDay + h * msPerHour, zone = z\<rparr>"
proof -
  have "n - (n + z * 60000) mod msPerDay + z * 60000
          = msPerDay * ((n + z * 60000) div msPerDay)"
    using minus_mod_eq_mult_div [of "n + z * 60000" msPerDay] by simp
  then have "(n - (n + z * 60000) mod msPerDay + z * 60000) mod msPerDay = 0"
    by simp
  then show ?thesis
    by (simp add: setHour_def startOfDay_def localMillis_def)
qed

lemma computeNextSlots_scheduledAt:
  fixes n :: int and cfg :: CadenceConfig
  defines "a \<equiv> n - (n + timezone cfg * 60000) mod msPerDay + publishHour cfg * msPerHour"
  defines "b \<equiv> (if a \<le> n then a + intervalDays cfg * msPerDay else a)"
  defines "off \<equiv> js_rem (b div msPerDay) (intervalDays cfg)"
  shows "scheduledAt (computeNextSlots n cfg)
           = (if off \<noteq> 0 then b + (intervalDays cfg - off) * msPerDay else b)"
proof -
  have s1: "setHour (publishHour cfg) (startOfDay \<lparr>millis = n, zone = timezone cfg\<rparr>)
              = \<lparr>millis = a, zone = timezone cfg\<rparr>"
    by (simp add: setHour_startOfDay a_def)
  have s2: "(if millis \<lparr>millis = a, zone = timezone cfg\<rparr> \<le> millis \<lparr>millis = n, zone = timezone cfg\<rparr>
             then plusDays (intervalDays cfg) \<lparr>millis = a, zone = timezone cfg\<rparr>
             else \<lparr>millis = a, zone = timezone cfg\<rparr>)
              = \<lparr>millis = b, zone = timezone cfg\<rparr>"
    by (simp add: b_def plusDays_def)
  have s3: "js_rem (daysSinceEpoch \<lparr>millis = b, zone = timezone cfg\<rparr>) (intervalDays cfg) = off"
    by (simp add: off_def daysSinceEpoch_def msPerDay_def)
  have "computeNextSlots n cfg
          = \<lparr>scheduledAt = millis (if off \<noteq> 0
                                      then plusDays (intervalDays cfg - off) \<lparr>millis = b, zone = timezone cfg\<rparr>
                                      else \<lparr>millis = b, zone = timezone cfg\<rparr>),
             createAt = millis (minusHours (draftLeadHours cfg)
                                 (if off \<noteq> 0
                                  then plusDays (intervalDays cfg - off) \<lparr>millis = b, zone = timezone cfg\<rparr>
                                  else \<lparr>millis = b, zone = timezone cfg\<rparr>))\<rparr>"
    by (simp only: computeNextSlots_def Let_def s1 s2 s3)
  then show ?thesis by (simp add: plusDays_def)
qed

lemma msPerDay_pos: "0 < msPerDay" and msPerHour_pos: "0 < msPerHour"
  and msPerDay_hours: "msPerDay = 24 * msPerHour"
  by (simp_all add: msPerDay_def msPerHour_def)

lemma valid_fields:
  "validCadenceConfig cfg
     = (1 \<le> intervalDays cfg \<and> 0 \<le> publishHour cfg \<and> publishHour cfg \<le> 23
        \<and> 1 \<le> draftLeadHours cfg)"
  by (auto simp: validCadenceConfig_def validateCadenceConfig_def)

lemma hour_in_day:
  assumes "0 \<le> h" and "h \<le> 23"
  shows "(h * msPerHour) mod msPerDay = h * msPerHour"
proof -
  have "0 \<le> h * msPerHour" using assms msPerHour_pos by simp
  moreover have "h * msPerHour < msPerDay"
  proof -
    have "h * msPerHour \<le> 23 * msPerHour"
      using assms msPerHour_pos by (simp add: mult_right_mono)
    also have "\<dots> < 24 * msPerHour" using msPerHour_pos by simp
    finally show ?thesis by (simp add: msPerDay_hours)
  qed
  ultimately show ?thesis by simp
qed

lemma first_slot_onGrid:
  assumes v: "validCadenceConfig cfg" and nn: "0 \<le> n"
  shows "onGrid cfg (scheduledAt (computeNextSlots n cfg))"
proof -
  define c where "c = timezone cfg * 60000"
  define h where "h = publishHour cfg"
  define I where "I = intervalDays cfg"
  define a where "a = n - (n + c) mod msPerDay + h * msPerHour"
  define b where "b = (if a \<le> n then a + I * msPerDay else a)"
  define off where "off = js_rem (b div msPerDay) I"
  define P where "P = (if off \<noteq> 0 then b + (I - off) * msPerDay else b)"
  from v have I1: "1 \<le> I" and h0: "0 \<le> h" and h23: "h \<le> 23"
    by (simp_all add: valid_fields I_def h_def)
  have P: "scheduledAt (computeNextSlots n cfg) = P"
    unfolding P_def off_def b_def a_def c_def h_def I_def
    by (rule computeNextSlots_scheduledAt)
  have ac: "a + c = msPerDay * ((n + c) div msPerDay) + h * msPerHour"
    using minus_mod_eq_mult_div [of "n + c" msPerDay] by (simp add: a_def)
  have a_tod: "(a + c) mod msPerDay = h * msPerHour"
    by (simp add: ac hour_in_day [OF h0 h23])
  have b_shape: "b = a \<or> b = a + I * msPerDay" by (simp add: b_def)
  then have b_tod: "(b + c) mod msPerDay = h * msPerHour"
  proof
    assume "b = a"
    with a_tod show ?thesis by simp
  next
    assume "b = a + I * msPerDay"
    then have "b + c = (a + c) + I * msPerDay" by simp
    with a_tod show ?thesis by (simp only: mod_mult_self1)
  qed
  have a_gt: "n - msPerDay < a"
  proof -
    have "(n + c) mod msPerDay < msPerDay" using msPerDay_pos by simp
    moreover have "0 \<le> h * msPerHour" using h0 msPerHour_pos by simp
    ultimately show ?thesis by (simp add: a_def)
  qed
  have b_gt: "n < b"
  proof (cases "a \<le> n")
    case True
    have m: "1 * msPerDay \<le> I * msPerDay"
      using I1 msPerDay_pos by (intro mult_right_mono) simp_all
    from True have "b = a + I * msPerDay" by (simp add: b_def)
    with m a_gt show ?thesis by linarith
  next
    case False
    then show ?thesis by (simp add: b_def)
  qed
  with nn have b0: "0 \<le> b" by simp
  then have d0: "0 \<le> b div msPerDay" using msPerDay_pos by (simp add: pos_imp_zdiv_nonneg_iff)
  with I1 have off: "off = (b div msPerDay) mod I" by (simp add: off_def js_rem_def)
  with I1 have off_rng: "0 \<le> off" "off < I" by simp_all
  have P_tod: "(P + c) mod msPerDay = h * msPerHour"
  proof (cases "off = 0")
    case True
    with b_tod show ?thesis by (simp add: P_def)
  next
    case False
    then have "P + c = (b + c) + (I - off) * msPerDay" by (simp add: P_def)
    with b_tod show ?thesis by (simp only: mod_mult_self1)
  qed
  have P0: "0 \<le> P"
  proof -
    have "0 \<le> (I - off) * msPerDay" using off_rng msPerDay_pos by simp
    with b0 show ?thesis by (simp add: P_def)
  qed
  have P_al: "(P div msPerDay) mod I = 0"
  proof (cases "off = 0")
    case True
    then show ?thesis using off by (simp add: P_def)
  next
    case False
    have "(b + (I - off) * msPerDay) div msPerDay = b div msPerDay + (I - off)"
      using msPerDay_pos by simp
    moreover have "(b div msPerDay + (I - off)) mod I = 0"
    proof -
      define q where "q = b div msPerDay"
      have "q - q mod I = I * (q div I)" by (rule minus_mod_eq_mult_div)
      then have "q + (I - off) = I * (1 + q div I)"
        using off by (simp add: q_def algebra_simps)
      then have "(q + (I - off)) mod I = (I * (1 + q div I)) mod I" by simp
      then show ?thesis by (simp add: q_def)
    qed
    ultimately show ?thesis using False by (simp add: P_def)
  qed
  show ?thesis
    unfolding onGrid_def P using P_tod P_al P0 by (simp add: c_def h_def I_def)
qed

lemma next_slot_from_slot:
  assumes v: "validCadenceConfig cfg" and g: "onGrid cfg p"
  shows "scheduledAt (computeNextSlots (p + intervalDays cfg * msPerDay) cfg)
           = p + 2 * intervalDays cfg * msPerDay"
proof -
  define c where "c = timezone cfg * 60000"
  define h where "h = publishHour cfg"
  define I where "I = intervalDays cfg"
  define n where "n = p + I * msPerDay"
  define a where "a = n - (n + c) mod msPerDay + h * msPerHour"
  define b where "b = (if a \<le> n then a + I * msPerDay else a)"
  define off where "off = js_rem (b div msPerDay) I"
  from v have I1: "1 \<le> I" by (simp add: valid_fields I_def)
  from g have tod: "(p + c) mod msPerDay = h * msPerHour"
    and al: "(p div msPerDay) mod I = 0" and p0: "0 \<le> p"
    by (simp_all add: onGrid_def c_def h_def I_def)
  have P: "scheduledAt (computeNextSlots n cfg)
             = (if off \<noteq> 0 then b + (I - off) * msPerDay else b)"
    unfolding off_def b_def a_def c_def h_def I_def
    by (rule computeNextSlots_scheduledAt)
  have "n + c = (p + c) + I * msPerDay" by (simp add: n_def)
  then have "(n + c) mod msPerDay = (p + c) mod msPerDay" by (simp only: mod_mult_self1)
  with tod have a: "a = n" by (simp add: a_def)
  then have b: "b = p + (2 * I) * msPerDay" by (simp add: b_def n_def algebra_simps)
  then have bd: "b div msPerDay = p div msPerDay + 2 * I"
    using msPerDay_pos by simp
  have "0 \<le> p div msPerDay" using p0 msPerDay_pos by (simp add: pos_imp_zdiv_nonneg_iff)
  with I1 bd have d0: "0 \<le> b div msPerDay" by simp
  have "(p div msPerDay + 2 * I) mod I = (p div msPerDay) mod I"
    by (simp only: mult.commute [of 2 I] mod_mult_self2)
  with al bd have "(b div msPerDay) mod I = 0" by simp
  with d0 I1 have "off = 0" by (simp add: off_def js_rem_def)
  with P b show ?thesis by (simp add: n_def I_def)
qed

lemma onGrid_step:
  assumes "onGrid cfg p" and "1 \<le> intervalDays cfg"
  shows "onGrid cfg (p + 2 * intervalDays cfg * msPerDay)"
proof -
  define I where "I = intervalDays cfg"
  define c where "c = timezone cfg * 60000"
  from assms have tod: "(p + c) mod msPerDay = publishHour cfg * msPerHour"
    and al: "(p div msPerDay) mod I = 0" and p0: "0 \<le> p" and I1: "1 \<le> I"
    by (simp_all add: onGrid_def c_def I_def)
  have "p + 2 * I * msPerDay + c = (p + c) + (2 * I) * msPerDay" by simp
  then have t: "(p + 2 * I * msPerDay + c) mod msPerDay = (p + c) mod msPerDay"
    by (simp only: mod_mult_self1)
  have d: "(p + (2 * I) * msPerDay) div msPerDay = p div msPerDay + 2 * I"
    using msPerDay_pos by simp
  have "(p div msPerDay + 2 * I) mod I = (p div msPerDay) mod I"
    by (simp only: mult.commute [of 2 I] mod_mult_self2)
  with al d have a: "((p + 2 * I * msPerDay) div msPerDay) mod I = 0" by simp
  have "0 \<le> 2 * I * msPerDay" using I1 msPerDay_pos by simp
  with p0 have "0 \<le> p + 2 * I * msPerDay" by simp
  with t tod a show ?thesis by (simp add: onGrid_def c_def I_def)
qed

lemma upcomingLoop_spacing:
  assumes v: "validCadenceConfig cfg"
  shows "onGrid cfg (scheduledAt cur) \<Longrightarrow>
         map slot_publishAt (upcomingLoop cfg n cur)
           = map (\<lambda>k. scheduledAt cur + int k * (2 * intervalDays cfg * msPerDay)) [0..<n]"
proof (induction n arbitrary: cur)
  case 0
  then show ?case by simp
next
  case (Suc n)
  let ?next = "computeNextSlots (scheduledAt cur + intervalDays cfg * msPerDay) cfg"
  from v have I1: "1 \<le> intervalDays cfg" by (simp add: valid_fields)
  have nx: "scheduledAt ?next = scheduledAt cur + 2 * intervalDays cfg * msPerDay"
    using next_slot_from_slot [OF v Suc.prems] .
  have "onGrid cfg (scheduledAt ?next)"
    unfolding nx using onGrid_step [OF Suc.prems I1] .
  from Suc.IH [OF this]
  have "map slot_publishAt (upcomingLoop cfg n ?next)
          = map (\<lambda>k. (scheduledAt cur + 2 * intervalDays cfg * msPerDay)
                       + int k * (2 * intervalDays cfg * msPerDay)) [0..<n]"
    unfolding nx .
  moreover have "(\<lambda>k. (scheduledAt cur + 2 * intervalDays cfg * msPerDay)
                       + int k * (2 * intervalDays cfg * msPerDay))
                 = (\<lambda>k. scheduledAt cur + int (Suc k) * (2 * intervalDays cfg * msPerDay))"
    by (rule ext) (simp add: algebra_simps)
  ultimately
  have ih: "map slot_publishAt (upcomingLoop cfg n ?next)
              = map (\<lambda>k. scheduledAt cur + int (Suc k) * (2 * intervalDays cfg * msPerDay)) [0..<n]"
    by simp
  have "[0..<Suc n] = 0 # map Suc [0..<n]"
    by (simp add: upt_conv_Cons map_Suc_upt del: upt_Suc)
  then show ?case
    by (simp add: ih comp_def del: upt_Suc)
qed

lemma getUpcomingSlots_spacing:
  assumes "validCadenceConfig cfg" and "0 \<le> now"
  shows "map slot_publishAt (getUpcomingSlots now cfg n)
           = map (\<lambda>k. scheduledAt (computeNextSlots now cfg)
                        + int k * (2 * intervalDays cfg * msPerDay)) [0..<n]"
  unfolding getUpcomingSlots_def
  using upcomingLoop_spacing [OF assms(1) first_slot_onGrid [OF assms]] .

section \<open>Post creation\<close>

text \<open>
  C3. For every creation request, whatever status it carries, \<open>createPost\<close> succeeds and
  returns a post with status \<open>BRIEF\<close>, no \<open>publishedAt\<close>, the generated id, and creation and
  update timestamps equal to the current time; that post is the stored document under
  the generated id.
\<close>

theorem createPost_starts_in_BRIEF:
  "\<exists>p s'. createPost now uuid postData s = (Inr p, s')
      \<and> status p = BRIEF \<and> publishedAt p = None \<and> post_id p = uuid
      \<and> createdAt p = now \<and> updatedAt p = now
      \<and> map_of (posts s') uuid = Some p"
  by (simp add: createPost_def logged_def invalidate_def Let_def update_conv')

section \<open>Running the effects step by step\<close>

lemma logged_Inr: "(logged msg m s = (Inr v, s')) = (m s = (Inr v, s'))"
  by (auto simp: logged_def split: prod.splits sum.splits)

lemma logged_fail: "m s = (Inl e, s1) \<Longrightarrow> logged msg m s = (Inl e, s1\<lparr>errlog := errlog s1 @ [msg]\<rparr>)"
  by (simp add: logged_def)

lemma logged_ok: "m s = (Inr v, s1) \<Longrightarrow> logged msg m s = (Inr v, s1)"
  by (simp add: logged_def)

lemma logged_posts: "posts (snd (logged msg m s)) = posts (snd (m s))"
  by (auto simp: logged_def split: prod.splits sum.splits)

lemma logged_ideas: "ideas (snd (logged msg m s)) = ideas (snd (m s))"
  by (auto simp: logged_def split: prod.splits sum.splits)

lemma bind_Inr: "(bind m f s = (Inr v, s')) = (\<exists>x s1. m s = (Inr x, s1) \<and> f x s1 = (Inr v, s'))"
  by (auto simp: bind_def split: prod.splits sum.splits)

lemma bind_ok: "m s = (Inr x, s1) \<Longrightarrow> bind m f s = f x s1"
  by (simp add: bind_def)

lemma bind_fail: "m s = (Inl e, s1) \<Longrightarrow> bind m f s = (Inl e, s1)"
  by (simp add: bind_def)

lemma getPostById_frame:
  "posts (snd (getPostById now pid s)) = posts s \<and> ideas (snd (getPostById now pid s)) = ideas s"
  by (auto simp: getPostById_def logged_def Let_def split: prod.splits sum.splits option.splits cached.splits)

lemma getIdeaById_frame:
  "posts (snd (getIdeaById now iid s)) = posts s \<and> ideas (snd (getIdeaById now iid s)) = ideas s"
  by (auto simp: getIdeaById_def logged_def Let_def split: prod.splits sum.splits option.splits cached.splits)

lemma getIdeaByPostId_frame:
  "posts (snd (getIdeaByPostId now pid s)) = posts s \<and> ideas (snd (getIdeaByPostId now pid s)) = ideas s"
  by (simp add: getIdeaByPostId_def Let_def getIdeaById_frame)

lemma markIdeaAsUsed_posts: "posts (snd (markIdeaAsUsed iid s)) = posts s"
  by (auto simp: markIdeaAsUsed_def logged_def invalidate_def split: option.splits)

lemma markIdeaAsUsedBestEffort_posts: "posts (snd (markIdeaAsUsedBestEffort iid s)) = posts s"
  using markIdeaAsUsed_posts [of iid s]
  by (auto simp: markIdeaAsUsedBestEffort_def split: prod.splits sum.splits)

lemma markIdeaAsUsedBestEffort_ok: "fst (markIdeaAsUsedBestEffort iid s) = Inr ()"
  by (auto simp: markIdeaAsUsedBestEffort_def split: prod.splits sum.splits)

lemma updateIdea_posts: "posts (snd (updateIdea now iid u s)) = posts s"
  by (auto simp: updateIdea_def logged_def invalidate_def Let_def split: option.splits)

lemma updateIdeaStatus_posts: "posts (snd (updateIdeaStatus iid st s)) = posts s"
  by (auto simp: updateIdeaStatus_def logged_def split: option.splits)


lemma updateIdeaStatus_posts': "updateIdeaStatus iid st s = (r, s') \<Longrightarrow> posts s' = posts s"
  using updateIdeaStatus_posts [of iid st s] by simp

lemma getIdeaByPostId_posts': "getIdeaByPostId now pid s = (r, s') \<Longrightarrow> posts s' = posts s"
  using getIdeaByPostId_frame [of now pid s] by simp

lemma updatePost_needs_doc:
  assumes "map_of (posts s) pid = None"
  shows "fst (updatePost now pid u s) = Inl (NotFoundError (''Post with ID '' @ quoted pid @ '' has no idea ID''))"
  using assms by (simp add: updatePost_def getIdeaByPostId_def bind_def logged_def)

lemma updatePost_status_only:
  assumes "updatePost now pid u s = (Inr p', s')" and "u_outline u = None"
  shows "\<exists>d. map_of (posts s) pid = Some d
            \<and> p' = (applyPostUpdate u now d)\<lparr>post_id := pid\<rparr>
            \<and> map_of (posts s') pid = Some (applyPostUpdate u now d)"
proof (cases "map_of (posts s) pid")
  case None
  from updatePost_needs_doc [OF None, of now u] assms(1) show ?thesis by simp
next
  case (Some d)
  from assms(1) obtain idea s1 where
    g: "getIdeaByPostId now pid s = (Inr idea, s1)" and
    rest: "bind (liftResult
                     (case u_status u of
                        None \<Rightarrow> Inr ()
                      | Some st \<Rightarrow> if st \<noteq> status (d\<lparr>post_id := pid\<rparr>)
                                    then validateStatusTransition (status (d\<lparr>post_id := pid\<rparr>)) st
                                    else Inr ()))
                  (\<lambda>_ s2.
                     bind (ret ())
                      (\<lambda>_ s4. bind (if status ((applyPostUpdate u now d)\<lparr>post_id := pid\<rparr>) = PUBLISHED
                           then updateIdeaStatus (idea_id idea) USED else ret ())
                       (\<lambda>_ s7.
                          (Inr ((applyPostUpdate u now d)\<lparr>post_id := pid\<rparr>),
                           if u_status u = Some REGENRATE
                           then s7\<lparr>webhooks := webhooks s7 @ [pid]\<rparr> else s7))
                       ((invalidate ''posts'' s4)
                          \<lparr>cache := snd (cache_del (''post:'' @ pid)
                             (cache (invalidate ''posts'' s4)))\<rparr>))
                       (s2\<lparr>posts := AList.update pid (applyPostUpdate u now d) (posts s2)\<rparr>))
                  s1 = (Inr p', s')"
    unfolding updatePost_def logged_Inr Let_def bind_Inr [of "getIdeaByPostId now pid"]
    by (auto simp: Some assms(2))
  have p1: "posts s1 = posts s" using g by (rule getIdeaByPostId_posts')
  from rest have p': "p' = (applyPostUpdate u now d)\<lparr>post_id := pid\<rparr>"
    and ps': "posts s' = AList.update pid (applyPostUpdate u now d) (posts s1)"
    by (auto simp: bind_Inr liftResult_def ret_def invalidate_def
             dest!: updateIdeaStatus_posts' split: if_splits)
  from ps' p1 have "map_of (posts s') pid = Some (applyPostUpdate u now d)"
    by (simp add: update_conv')
  with Some p' show ?thesis by blast
qed

lemma statusUpdateData_outline: "u_outline (statusUpdateData now cur req) = None"
  by (simp add: statusUpdateData_def)

lemma status_update_fields:
  "status (applyPostUpdate (statusUpdateData now cur req) now d) = s_status req
   \<and> publishedAt (applyPostUpdate (statusUpdateData now cur req) now d)
       = (if s_status req = PUBLISHED \<and> cur \<noteq> PUBLISHED then Some now else publishedAt d)
   \<and> brief (applyPostUpdate (statusUpdateData now cur req) now d) = brief d
   \<and> outline (applyPostUpdate (statusUpdateData now cur req) now d) = outline d
   \<and> draft (applyPostUpdate (statusUpdateData now cur req) now d) = draft d
   \<and> seo (applyPostUpdate (statusUpdateData now cur req) now d) = seo d
   \<and> post_id (applyPostUpdate (statusUpdateData now cur req) now d) = post_id d"
  by (simp add: applyPostUpdate_def statusUpdateData_def)

lemma updatePostStatus_Inr:
  assumes "updatePostStatus now pid req s = (Inr p', s')"
  shows "\<exists>post s1 d. getPostById now pid s = (Inr post, s1)
           \<and> s_status req \<in> set (validTransitions (status post))
           \<and> map_of (posts s) pid = Some d
           \<and> p' = (applyPostUpdate (statusUpdateData now (status post) req) now d)\<lparr>post_id := pid\<rparr>
           \<and> map_of (posts s') pid = Some (applyPostUpdate (statusUpdateData now (status post) req) now d)"
proof -
  from assms obtain post s1 s2 where
    g: "getPostById now pid s = (Inr post, s1)" and
    v: "validateStatusTransition (status post) (s_status req) = Inr ()" and
    m: "snd ((if s_status req = PUBLISHED \<and> status post \<noteq> PUBLISHED \<and> post_ideaId post \<noteq> []
          then markIdeaAsUsedBestEffort (post_ideaId post) else ret ()) s1) = s2" and
    u: "updatePost now pid (statusUpdateData now (status post) req) s2 = (Inr p', s')"
    unfolding updatePostStatus_def logged_Inr bind_Inr liftResult_def
    by auto
  from v have mem: "s_status req \<in> set (validTransitions (status post))"
    by (simp add: validateStatusTransition_def split: if_splits)
  have p1: "posts s1 = posts s" using g getPostById_frame [of now pid s] by simp
  have p2: "posts s2 = posts s1"
    using m markIdeaAsUsedBestEffort_posts [of "post_ideaId post" s1]
    by (auto simp: ret_def split: if_splits)
  from updatePost_status_only [OF u statusUpdateData_outline] p1 p2 g mem
  show ?thesis by auto
qed

lemma getPostById_split:
  assumes "fst (getPostById now pid s) = Inr post"
  obtains s1 where "getPostById now pid s = (Inr post, s1)" "posts s1 = posts s" "ideas s1 = ideas s"
proof -
  from assms obtain s1 where g: "getPostById now pid s = (Inr post, s1)"
    by (cases "getPostById now pid s") auto
  with getPostById_frame [of now pid s] have "posts s1 = posts s" "ideas s1 = ideas s" by simp_all
  with g that show thesis by blast
qed

lemma markIdeaAsUsed_Inr:
  assumes "fst (markIdeaAsUsed iid s) = Inr ()"
  shows "(\<exists>i. map_of (ideas s) iid = Some i \<and> idea_status i = UNUSED)
         \<and> map_option idea_status (map_of (ideas (snd (markIdeaAsUsed iid s))) iid) = Some USED"
proof (cases "map_of (ideas s) iid")
  case None
  with assms show ?thesis by (simp add: markIdeaAsUsed_def logged_def)
next
  case (Some i)
  with assms have st: "idea_status i = UNUSED"
    by (cases "idea_status i") (simp_all add: markIdeaAsUsed_def logged_def)
  with Some show ?thesis
    by (simp add: markIdeaAsUsed_def logged_def invalidate_def update_conv')
qed

lemma markIdeaAsUsed_refuses:
  assumes "map_of (ideas s) iid = Some i" and "idea_status i \<noteq> UNUSED"
  shows "markIdeaAsUsed iid s
           = (Inl (ValidationError (if idea_status i = USED then ''Idea is already used''
                                    else ''Idea is already processing'')),
              s\<lparr>errlog := errlog s @ [''Failed to mark idea as used:'']\<rparr>)"
  using assms by (cases "idea_status i") (simp_all add: markIdeaAsUsed_def logged_def)

lemma pickNextIdea_holds:
  assumes "fst (pickNextIdea now s) = Inr (Some picked)"
  shows "map_option idea_status (map_of (ideas (snd (pickNextIdea now s))) (idea_id picked))
           = Some PROCESSING"
proof -
  from assms obtain s' where r: "pickNextIdea now s = (Inr (Some picked), s')"
    by (cases "pickNextIdea now s") auto
  then obtain xs s1 where
    b: "(if xs = [] then (Inr None, s1)
         else case sortBy compareIdeas xs of
                [] \<Rightarrow> (Inr None, s1\<lparr>cache := AList.map_entry (''ideas:all:'' @ stringifyFilters unusedFilter)
                                     (\<lambda>entry. entry\<lparr>data := CIdeas (sortBy compareIdeas xs)\<rparr>) (cache s1)\<rparr>)
              | selectedIdea # rest \<Rightarrow>
                   bind (updateIdeaStatus (idea_id selectedIdea) PROCESSING)
                     (\<lambda>_. ret (Some selectedIdea))
                     (s1\<lparr>cache := AList.map_entry (''ideas:all:'' @ stringifyFilters unusedFilter)
                                     (\<lambda>entry. entry\<lparr>data := CIdeas (sortBy compareIdeas xs)\<rparr>) (cache s1)\<rparr>))
        = (Inr (Some picked), s')"
    unfolding pickNextIdea_def logged_Inr bind_Inr Let_def by blast
  then obtain rest s2 where
    u: "updateIdeaStatus (idea_id picked) PROCESSING s2 = (Inr (), s')"
    by (auto simp: bind_Inr ret_def split: if_splits list.splits)
  then have "map_option idea_status (map_of (ideas s') (idea_id picked)) = Some PROCESSING"
    by (auto simp: updateIdeaStatus_def logged_def update_conv' split: option.splits)
  with r show ?thesis by simp
qed

lemma in_update_other: "(k, e) \<in> set (AList.update k' v al) \<Longrightarrow> k \<noteq> k' \<Longrightarrow> (k, e) \<in> set al"
  by (induction al) (auto split: if_splits)

lemma in_delete: "(k, e) \<in> set (AList.delete k' al) \<Longrightarrow> (k, e) \<in> set al"
  by (induction al) (auto split: if_splits)

lemma live_entries_mono:
  assumes "\<And>entry. (''idea:'' @ iid, entry) \<in> set (cache s') \<Longrightarrow> (''idea:'' @ iid, entry) \<in> set (cache s)"
  shows "set (liveIdeaEntries now iid s') \<subseteq> set (liveIdeaEntries now iid s)"
  using assms by (auto simp: liveIdeaEntries_def)

lemma live_entry_hit:
  assumes "map_of (cache s) (''idea:'' @ iid) = Some entry" and "\<not> now > expiresAt entry"
  shows "entry \<in> set (liveIdeaEntries now iid s)"
proof -
  from assms(1) have "(''idea:'' @ iid, entry) \<in> set (cache s)" by (rule map_of_SomeD)
  with assms(2) show ?thesis by (force simp: liveIdeaEntries_def)
qed

lemma getIdeaById_resolves:
  assumes "map_of (ideas s) iid = Some i"
    and "list_all (holdsIdea iid) (liveIdeaEntries now iid s)"
  shows "\<exists>idea s'. getIdeaById now iid s = (Inr idea, s') \<and> idea_id idea = iid
            \<and> posts s' = posts s \<and> ideas s' = ideas s"
proof (cases "map_of (cache s) (''idea:'' @ iid)")
  case None
  with assms(1) show ?thesis
    by (simp add: getIdeaById_def logged_def cache_get_def Let_def)
next
  case (Some entry)
  show ?thesis
  proof (cases "now > expiresAt entry")
    case True
    with Some assms(1) show ?thesis
      by (simp add: getIdeaById_def logged_def cache_get_def Let_def)
  next
    case False
    from live_entry_hit [OF Some False] assms(2) have "holdsIdea iid entry"
      by (simp add: list_all_iff)
    then obtain x where "data entry = CIdea x" and "idea_id x = iid"
      by (auto simp: holdsIdea_def split: cached.splits)
    with Some False show ?thesis
      by (simp add: getIdeaById_def logged_def cache_get_def Let_def)
  qed
qed

lemma getIdeaById_missing:
  assumes "map_of (ideas s) iid = None" and "liveIdeaEntries now iid s = []"
  shows "\<exists>s'. getIdeaById now iid s = (Inl (NotFoundError ''Idea''), s') \<and> posts s' = posts s"
proof (cases "map_of (cache s) (''idea:'' @ iid)")
  case None
  with assms(1) show ?thesis
    by (simp add: getIdeaById_def logged_def cache_get_def Let_def)
next
  case (Some entry)
  have "now > expiresAt entry"
  proof (rule ccontr)
    assume "\<not> now > expiresAt entry"
    from live_entry_hit [OF Some this] assms(2) show False by simp
  qed
  with Some assms(1) show ?thesis
    by (simp add: getIdeaById_def logged_def cache_get_def Let_def)
qed

lemma getPostById_cache_shape:
  "cache (snd (getPostById now pid s)) = cache s
   \<or> cache (snd (getPostById now pid s)) = AList.delete (''post:'' @ pid) (cache s)
   \<or> (\<exists>v. cache (snd (getPostById now pid s)) = AList.update (''post:'' @ pid) v (cache s))
   \<or> (\<exists>v. cache (snd (getPostById now pid s))
            = AList.update (''post:'' @ pid) v (AList.delete (''post:'' @ pid) (cache s)))"
  by (auto simp: getPostById_def logged_def cache_get_def cache_set_def Let_def
           split: option.splits cached.splits)

lemma getPostById_idea_entries:
  assumes "(''idea:'' @ iid, entry) \<in> set (cache (snd (getPostById now pid s)))"
  shows "(''idea:'' @ iid, entry) \<in> set (cache s)"
proof -
  define k where "k = ''post:'' @ pid"
  define j where "j = ''idea:'' @ iid"
  have ne: "j \<noteq> k" by (simp add: j_def k_def)
  from getPostById_cache_shape [of now pid s]
  consider "cache (snd (getPostById now pid s)) = cache s"
    | "cache (snd (getPostById now pid s)) = AList.delete k (cache s)"
    | v where "cache (snd (getPostById now pid s)) = AList.update k v (cache s)"
    | v where "cache (snd (getPostById now pid s)) = AList.update k v (AList.delete k (cache s))"
    unfolding k_def by blast
  then have "(j, entry) \<in> set (cache s)"
  proof cases
    case 1
    with assms show ?thesis by (simp add: j_def)
  next
    case 2
    with assms have "(j, entry) \<in> set (AList.delete k (cache s))" by (simp add: j_def)
    then show ?thesis by (rule in_delete)
  next
    case 3
    with assms have "(j, entry) \<in> set (AList.update k v (cache s))" by (simp add: j_def)
    then show ?thesis using ne by (rule in_update_other)
  next
    case 4
    with assms have "(j, entry) \<in> set (AList.update k v (AList.delete k (cache s)))"
      by (simp add: j_def)
    then have "(j, entry) \<in> set (AList.delete k (cache s))" using ne by (rule in_update_other)
    then show ?thesis by (rule in_delete)
  qed
  then show ?thesis by (simp add: j_def)
qed

lemma markIdeaAsUsedBestEffort_keeps:
  "\<exists>s2. markIdeaAsUsedBestEffort j s = (Inr (), s2) \<and> posts s2 = posts s
        \<and> (map_of (ideas s2) iid = None) = (map_of (ideas s) iid = None)
        \<and> set (cache s2) \<subseteq> set (cache s)"
proof (cases "map_of (ideas s) j")
  case None
  then show ?thesis
    by (simp add: markIdeaAsUsedBestEffort_def markIdeaAsUsed_def logged_def)
next
  case (Some ij)
  then show ?thesis
    by (cases "idea_status ij")
       (auto simp: markIdeaAsUsedBestEffort_def markIdeaAsUsed_def logged_def invalidate_def
                   cache_delByTag_def update_conv')
qed

text \<open>The steps of \<open>updatePostStatus\<close> before \<open>updatePost\<close>, for a pair the validation
  accepts: they leave the posts alone, keep every idea in the store, and add no cache
  entry under an idea's key.\<close>

lemma updatePostStatus_prefix:
  assumes g: "fst (getPostById now pid s) = Inr post"
    and valid: "s_status req \<in> set (validTransitions (status post))"
  shows "\<exists>s2. updatePostStatus now pid req s
                = logged ''Failed to update post status:''
                    (updatePost now pid (statusUpdateData now (status post) req)) s2
            \<and> posts s2 = posts s
            \<and> (map_of (ideas s2) iid = None) = (map_of (ideas s) iid = None)
            \<and> set (liveIdeaEntries now iid s2) \<subseteq> set (liveIdeaEntries now iid s)"
proof -
  from g obtain s1 where g1: "getPostById now pid s = (Inr post, s1)"
    and p1: "posts s1 = posts s" and i1: "ideas s1 = ideas s"
    by (auto elim: getPostById_split)
  have l1: "set (liveIdeaEntries now iid s1) \<subseteq> set (liveIdeaEntries now iid s)"
    using getPostById_idea_entries [of iid _ now pid s] g1
    by (intro live_entries_mono) simp
  obtain s2 where
    m: "(if s_status req = PUBLISHED \<and> status post \<noteq> PUBLISHED \<and> post_ideaId post \<noteq> []
         then markIdeaAsUsedBestEffort (post_ideaId post) else ret ()) s1 = (Inr (), s2)"
    and p2: "posts s2 = posts s1"
    and i2: "(map_of (ideas s2) iid = None) = (map_of (ideas s1) iid = None)"
    and c2: "set (cache s2) \<subseteq> set (cache s1)"
    using markIdeaAsUsedBestEffort_keeps [of "post_ideaId post" s1 iid]
    by (cases "s_status req = PUBLISHED \<and> status post \<noteq> PUBLISHED \<and> post_ideaId post \<noteq> []")
       (auto simp: ret_def)
  have l2: "set (liveIdeaEntries now iid s2) \<subseteq> set (liveIdeaEntries now iid s1)"
    using c2 by (intro live_entries_mono) auto
  have v: "validateStatusTransition (status post) (s_status req) = Inr ()"
    using valid by (simp add: validateStatusTransition_def)
  have "updatePostStatus now pid req s
          = logged ''Failed to update post status:''
              (updatePost now pid (statusUpdateData now (status post) req)) s2"
    unfolding updatePostStatus_def
    by (simp add: logged_def bind_def g1 v liftResult_def m)
  moreover have "posts s2 = posts s" using p1 p2 by simp
  moreover have "(map_of (ideas s2) iid = None) = (map_of (ideas s) iid = None)"
    using i1 i2 by simp
  moreover have "set (liveIdeaEntries now iid s2) \<subseteq> set (liveIdeaEntries now iid s)"
    using l1 l2 by (rule subset_trans [rotated])
  ultimately show ?thesis by (intro exI [of _ s2] conjI)
qed

lemma updatePost_succeeds:
  assumes "map_of (posts s) pid = Some d" and "post_ideaId d \<noteq> []"
    and "map_of (ideas s) (post_ideaId d) = Some i"
    and "list_all (holdsIdea (post_ideaId d)) (liveIdeaEntries now (post_ideaId d) s)"
    and "u_outline u = None" and "u_status u = Some st"
    and "st \<in> set (status d # validTransitions (status d))"
  shows "\<exists>p' s'. updatePost now pid u s = (Inr p', s')"
proof -
  from getIdeaById_resolves [OF assms(3,4)] assms(1,2) obtain idea s1 where
    gi: "getIdeaByPostId now pid s = (Inr idea, s1)" and id: "idea_id idea = post_ideaId d"
    and i1: "ideas s1 = ideas s"
    by (auto simp: getIdeaByPostId_def)
  have v: "(case u_status u of
               None \<Rightarrow> Inr ()
             | Some st \<Rightarrow> if st \<noteq> status (d\<lparr>post_id := pid\<rparr>)
                           then validateStatusTransition (status (d\<lparr>post_id := pid\<rparr>)) st
                           else Inr ()) = Inr ()"
    using assms(6,7) by (auto simp: validateStatusTransition_def)
  show ?thesis
  proof (cases "status (applyPostUpdate u now d) = PUBLISHED")
    case True
    then show ?thesis
      unfolding updatePost_def Let_def
      by (simp add: logged_def bind_def gi id i1 assms(1,3,5) v liftResult_def ret_def
                    updateIdeaStatus_def invalidate_def)
  next
    case False
    then show ?thesis
      unfolding updatePost_def Let_def
      by (simp add: logged_def bind_def gi assms(1,5) v liftResult_def ret_def
                    invalidate_def)
  qed
qed

lemma updatePost_refused_lookup:
  assumes "getIdeaByPostId now pid s = (Inl e, s1)"
  shows "updatePost now pid u s = (Inl e, s1\<lparr>errlog := errlog s1 @ [''Failed to update post:'']\<rparr>)"
  using assms by (simp add: updatePost_def bind_def logged_def Let_def)

lemma updatePostStatus_accepts:
  assumes g: "fst (getPostById now pid s) = Inr post"
    and d: "map_of (posts s) pid = Some d"
    and st: "status d = status post"
    and nonempty: "post_ideaId d \<noteq> []"
    and idea: "map_of (ideas s) (post_ideaId d) = Some i"
    and live: "list_all (holdsIdea (post_ideaId d)) (liveIdeaEntries now (post_ideaId d) s)"
    and valid: "s_status req \<in> set (validTransitions (status post))"
  shows "\<exists>p'. fst (updatePostStatus now pid req s) = Inr p' \<and> status p' = s_status req
            \<and> map_option status (map_of (posts (snd (updatePostStatus now pid req s))) pid)
                = Some (s_status req)"
proof -
  from updatePostStatus_prefix [OF g valid, where iid = "post_ideaId d"] obtain s2 where
    e: "updatePostStatus now pid req s
          = logged ''Failed to update post status:''
              (updatePost now pid (statusUpdateData now (status post) req)) s2"
    and p2: "posts s2 = posts s"
    and i2: "(map_of (ideas s2) (post_ideaId d) = None) = (map_of (ideas s) (post_ideaId d) = None)"
    and l2: "set (liveIdeaEntries now (post_ideaId d) s2) \<subseteq> set (liveIdeaEntries now (post_ideaId d) s)"
    by (elim exE conjE) (rule that; assumption)
  from i2 idea obtain i' where i': "map_of (ideas s2) (post_ideaId d) = Some i'" by auto
  from l2 live have live2: "list_all (holdsIdea (post_ideaId d)) (liveIdeaEntries now (post_ideaId d) s2)"
    by (auto simp: list_all_iff)
  have d2: "map_of (posts s2) pid = Some d" using d p2 by simp
  have "\<exists>p' s'. updatePost now pid (statusUpdateData now (status post) req) s2 = (Inr p', s')"
    using valid st
    by (intro updatePost_succeeds [OF d2 nonempty i' live2, where st = "s_status req"])
       (simp_all add: statusUpdateData_def)
  then obtain p' s' where
    u: "updatePost now pid (statusUpdateData now (status post) req) s2 = (Inr p', s')"
    by blast
  have r: "updatePostStatus now pid req s = (Inr p', s')"
    by (simp add: e logged_def u)
  from g obtain s1 where g1: "getPostById now pid s = (Inr post, s1)"
    by (auto elim: getPostById_split)
  from updatePostStatus_Inr [OF r] g1 d
  have "p' = (applyPostUpdate (statusUpdateData now (status post) req) now d)\<lparr>post_id := pid\<rparr>"
    and "map_of (posts s') pid = Some (applyPostUpdate (statusUpdateData now (status post) req) now d)"
    by auto
  with status_update_fields [of now "status post" req d] r show ?thesis by simp
qed

lemma updatePostStatus_no_idea:
  assumes g: "fst (getPostById now pid s) = Inr post"
    and valid: "s_status req \<in> set (validTransitions (status post))"
    and d: "map_of (posts s) pid = Some d" and none: "post_ideaId d = []"
  shows "fst (updatePostStatus now pid req s)
           = Inl (NotFoundError (''Post with ID '' @ quoted pid @ '' has no idea ID''))
         \<and> posts (snd (updatePostStatus now pid req s)) = posts s"
proof -
  from updatePostStatus_prefix [OF g valid, where iid = "[]"] obtain s2 where
    e: "updatePostStatus now pid req s
          = logged ''Failed to update post status:''
              (updatePost now pid (statusUpdateData now (status post) req)) s2"
    and p2: "posts s2 = posts s"
    by blast
  have "getIdeaByPostId now pid s2
          = (Inl (NotFoundError (''Post with ID '' @ quoted pid @ '' has no idea ID'')), s2)"
    using d none p2 by (simp add: getIdeaByPostId_def)
  from updatePost_refused_lookup [OF this] show ?thesis
    by (simp add: e logged_def p2)
qed

lemma updatePostStatus_missing_idea:
  assumes g: "fst (getPostById now pid s) = Inr post"
    and valid: "s_status req \<in> set (validTransitions (status post))"
    and d: "map_of (posts s) pid = Some d" and nonempty: "post_ideaId d \<noteq> []"
    and gone: "map_of (ideas s) (post_ideaId d) = None"
    and cold: "liveIdeaEntries now (post_ideaId d) s = []"
  shows "fst (updatePostStatus now pid req s) = Inl (NotFoundError ''Idea'')
         \<and> posts (snd (updatePostStatus now pid req s)) = posts s"
proof -
  from updatePostStatus_prefix [OF g valid, where iid = "post_ideaId d"] obtain s2 where
    e: "updatePostStatus now pid req s
          = logged ''Failed to update post status:''
              (updatePost now pid (statusUpdateData now (status post) req)) s2"
    and p2: "posts s2 = posts s"
    and i2: "(map_of (ideas s2) (post_ideaId d) = None) = (map_of (ideas s) (post_ideaId d) = None)"
    and l2: "set (liveIdeaEntries now (post_ideaId d) s2) \<subseteq> set (liveIdeaEntries now (post_ideaId d) s)"
    by (elim exE conjE) (rule that; assumption)
  from i2 gone have gone2: "map_of (ideas s2) (post_ideaId d) = None" by simp
  from l2 cold have cold2: "liveIdeaEntries now (post_ideaId d) s2 = []" by simp
  from getIdeaById_missing [OF gone2 cold2] obtain s3 where
    "getIdeaById now (post_ideaId d) s2 = (Inl (NotFoundError ''Idea''), s3)" and "posts s3 = posts s2"
    by blast
  with d nonempty p2 have "getIdeaByPostId now pid s2 = (Inl (NotFoundError ''Idea''), s3)"
    and p3: "posts s3 = posts s"
    by (simp_all add: getIdeaByPostId_def)
  from updatePost_refused_lookup [OF this(1)] p3 show ?thesis
    by (simp add: e logged_def)
qed

lemma table_agrees: "((c, t) \<in> set spec_transition_table) = (t \<in> set (validTransitions c))"
  by (cases c; cases t; simp add: spec_transition_table_def)

lemma publishPost_Inr:
  assumes "publishPost now pid s = (Inr p, s')"
  shows "\<exists>post s1 idea s2 marked s3.
           getPostById now pid s = (Inr post, s1)
         \<and> getIdeaByPostId now pid s1 = (Inr idea, s2)
         \<and> (status post = APPROVED \<or> status post = SCHEDULED)
         \<and> updateIdea now (idea_id idea) (noIdeaUpdate\<lparr>ui_status := Some USED\<rparr>) s2 = (Inr marked, s3)
         \<and> updatePostStatus now pid
              \<lparr>s_status = PUBLISHED, s_scheduledAt = At now, s_errorMessage = None\<rparr> s3 = (Inr p, s')"
  using assms
  unfolding publishPost_def logged_Inr bind_Inr
  by (auto simp: throw_def bind_Inr split: if_splits)

section \<open>Idea picking\<close>

text \<open>
  C6. \<open>pickNextIdea\<close> is meant to choose among the ideas with status \<open>UNUSED\<close>. It asks
  \<open>getAllIdeas\<close> for \<open>{status: "UNUSED"}\<close>, but \<open>getAllIdeas\<close> never applies the status
  filter, so every idea is a candidate. With a high-priority idea that is already \<open>USED\<close>
  and a low-priority idea that is \<open>UNUSED\<close>, the used idea is returned and its stored status
  becomes \<open>PROCESSING\<close>; the unused idea is left alone.
\<close>

theorem pickNextIdea_picks_used_idea:
  "idea_status usedIdea = USED \<and> idea_status freshIdea = UNUSED
   \<and> fst (pickNextIdea 100 twoIdeas) = Inr (Some usedIdea)
   \<and> map_of (ideas (snd (pickNextIdea 100 twoIdeas))) ''i1''
        = Some (usedIdea\<lparr>idea_status := PROCESSING\<rparr>)
   \<and> map_of (ideas (snd (pickNextIdea 100 twoIdeas))) ''i2'' = Some freshIdea"
  by code_simp

text \<open>Whenever the list is not served from the cache, \<open>getUnusedIdeas\<close> returns every stored
  idea, whatever its status.\<close>

lemma getUnusedIdeas_ignores_status:
  assumes "map_of (cache s) (''ideas:all:'' @ stringifyFilters unusedFilter) = None"
  shows "fst (getUnusedIdeas now s) = Inr (queryIdeasByCreatedAtDesc s)"
  using assms
  by (simp add: getUnusedIdeas_def getAllIdeas_def logged_def cache_get_def Let_def unusedFilter_def)

text \<open>Among ideas of equal priority the comparator gives \<open>NaN\<close>, so the order of the query
  (newest first) stands: of two unused ideas of the same priority the newer is picked.\<close>

lemma pickNextIdea_tie_picks_newest:
  "fst (pickNextIdea 100 tiedIdeas)
     = Inr (Some (freshIdea\<lparr>idea_id := ''new'', idea_createdAt := 2\<rparr>))"
  by code_simp

section \<open>Cache invalidation\<close>

text \<open>
  C9. The status write inside \<open>pickNextIdea\<close> goes through \<open>updateIdeaStatus\<close>, which does
  not invalidate the cache. Starting with one unused idea that is also cached under its
  id: after \<open>pickNextIdea\<close> the stored status is \<open>PROCESSING\<close>, yet two cache entries tagged
  \<open>ideas\<close> remain, \<open>getIdeaById\<close> still answers with the unused idea, and a second
  \<open>pickNextIdea\<close> returns the same idea again.
\<close>

theorem pickNextIdea_leaves_cache_stale:
  "map_of (ideas (snd (pickNextIdea 100 cachedIdea))) ''i2''
      = Some (freshIdea\<lparr>idea_status := PROCESSING\<rparr>)
   \<and> fst (cache_delByTag ''ideas'' (cache (snd (pickNextIdea 100 cachedIdea)))) = 2
   \<and> fst (getIdeaById 200 ''i2'' (snd (pickNextIdea 100 cachedIdea))) = Inr freshIdea
   \<and> fst (pickNextIdea 200 (snd (pickNextIdea 100 cachedIdea))) = Inr (Some freshIdea)"
  by code_simp

text \<open>\<open>updateIdeaStatus\<close> never touches the cache.\<close>

lemma updateIdeaStatus_keeps_cache: "cache (snd (updateIdeaStatus iid st s)) = cache s"
  by (auto simp: updateIdeaStatus_def logged_def split: option.splits)

section \<open>Deletion\<close>

text \<open>
  C5 (as the code has it). \<open>deletePost\<close> on a post read as \<open>PUBLISHED\<close> fails with the
  \<open>ValidationError\<close> "Cannot delete a published post" and leaves the collection as it
  is; on a post read in any other status it succeeds and the document is gone.
  \<open>deleteIdea\<close> on a stored idea with status \<open>USED\<close> fails with the \<open>ValidationError\<close>
  "Cannot delete an idea that has been used" and leaves the collection as it is; on a
  stored idea in any other status it succeeds and the document is gone.
\<close>

theorem delete_guards:
  "(fst (getPostById now pid s) = Inr post \<and> status post = PUBLISHED \<longrightarrow>
      fst (deletePost now pid s) = Inl (ValidationError ''Cannot delete a published post'')
      \<and> posts (snd (deletePost now pid s)) = posts s)
   \<and> (fst (getPostById now pid s) = Inr post \<and> status post \<noteq> PUBLISHED \<longrightarrow>
      fst (deletePost now pid s) = Inr ()
      \<and> map_of (posts (snd (deletePost now pid s))) pid = None)
   \<and> (map_of (ideas s) iid = Some idea \<and> idea_status idea = USED \<longrightarrow>
      fst (deleteIdea iid s) = Inl (ValidationError ''Cannot delete an idea that has been used'')
      \<and> ideas (snd (deleteIdea iid s)) = ideas s)
   \<and> (map_of (ideas s) iid = Some idea \<and> idea_status idea \<noteq> USED \<longrightarrow>
      fst (deleteIdea iid s) = Inr ()
      \<and> map_of (ideas (snd (deleteIdea iid s))) iid = None)"
proof (intro conjI impI)
  assume h: "fst (getPostById now pid s) = Inr post \<and> status post = PUBLISHED"
  then obtain s1 where g: "getPostById now pid s = (Inr post, s1)"
    by (cases "getPostById now pid s") auto
  have f: "posts s1 = posts s"
    using g getPostById_frame [of now pid s] by simp
  from g h have d: "deletePost now pid s
        = (Inl (ValidationError ''Cannot delete a published post''),
           s1\<lparr>errlog := errlog s1 @ [''Failed to delete post:'']\<rparr>)"
    by (simp add: deletePost_def logged_def bind_def)
  show "fst (deletePost now pid s) = Inl (ValidationError ''Cannot delete a published post'')"
    by (simp add: d)
  show "posts (snd (deletePost now pid s)) = posts s"
    by (simp add: d f)
next
  assume h: "fst (getPostById now pid s) = Inr post \<and> status post \<noteq> PUBLISHED"
  then obtain s1 where g: "getPostById now pid s = (Inr post, s1)"
    by (cases "getPostById now pid s") auto
  from g h have d: "deletePost now pid s =
      (Inr (), (invalidate ''posts'' (s1\<lparr>posts := AList.delete pid (posts s1)\<rparr>))
         \<lparr>cache := snd (cache_del (''post:'' @ pid)
                     (cache (invalidate ''posts'' (s1\<lparr>posts := AList.delete pid (posts s1)\<rparr>))))\<rparr>)"
    by (simp add: deletePost_def logged_def bind_def Let_def)
  show "fst (deletePost now pid s) = Inr ()" by (simp add: d)
  show "map_of (posts (snd (deletePost now pid s))) pid = None"
    by (simp add: d invalidate_def delete_conv')
next
  assume h: "map_of (ideas s) iid = Some idea \<and> idea_status idea = USED"
  then show "fst (deleteIdea iid s)
        = Inl (ValidationError ''Cannot delete an idea that has been used'')"
    by (simp add: deleteIdea_def logged_def)
  from h show "ideas (snd (deleteIdea iid s)) = ideas s"
    by (simp add: deleteIdea_def logged_def)
next
  assume h: "map_of (ideas s) iid = Some idea \<and> idea_status idea \<noteq> USED"
  then show "fst (deleteIdea iid s) = Inr ()"
    by (simp add: deleteIdea_def logged_def)
  from h show "map_of (ideas (snd (deleteIdea iid s))) iid = None"
    by (simp add: deleteIdea_def logged_def invalidate_def delete_conv')
qed

theorem delete_guards_witness:
  "fst (getPostById 100 ''p1'' (storeWith publishedPost usedIdea)) = Inr publishedPost
   \<and> status publishedPost = PUBLISHED
   \<and> fst (deletePost 100 ''p1'' (storeWith publishedPost usedIdea))
       = Inl (ValidationError ''Cannot delete a published post'')
   \<and> posts (snd (deletePost 100 ''p1'' (storeWith publishedPost usedIdea)))
       = posts (storeWith publishedPost usedIdea)
   \<and> fst (getPostById 100 ''p1'' (storeWith draftPost freshIdea)) = Inr draftPost
   \<and> status draftPost \<noteq> PUBLISHED
   \<and> fst (deletePost 100 ''p1'' (storeWith draftPost freshIdea)) = Inr ()
   \<and> map_of (posts (snd (deletePost 100 ''p1'' (storeWith draftPost freshIdea)))) ''p1'' = None
   \<and> map_of (ideas (storeWith publishedPost usedIdea)) ''i1'' = Some usedIdea
   \<and> idea_status usedIdea = USED
   \<and> fst (deleteIdea ''i1'' (storeWith publishedPost usedIdea))
       = Inl (ValidationError ''Cannot delete an idea that has been used'')
   \<and> map_of (ideas (storeWith draftPost freshIdea)) ''i2'' = Some freshIdea
   \<and> idea_status freshIdea \<noteq> USED
   \<and> fst (deleteIdea ''i2'' (storeWith draftPost freshIdea)) = Inr ()
   \<and> map_of (ideas (snd (deleteIdea ''i2'' (storeWith draftPost freshIdea)))) ''i2'' = None"
proof -
  have h1: "fst (getPostById 100 ''p1'' (storeWith publishedPost usedIdea)) = Inr publishedPost
            \<and> status publishedPost = PUBLISHED"
    by code_simp
  have h2: "fst (getPostById 100 ''p1'' (storeWith draftPost freshIdea)) = Inr draftPost
            \<and> status draftPost \<noteq> PUBLISHED"
    by code_simp
  have h3: "map_of (ideas (storeWith publishedPost usedIdea)) ''i1'' = Some usedIdea
            \<and> idea_status usedIdea = USED"
    by code_simp
  have h4: "map_of (ideas (storeWith draftPost freshIdea)) ''i2'' = Some freshIdea
            \<and> idea_status freshIdea \<noteq> USED"
    by code_simp
  from h1 h2 h3 h4
    delete_guards [of 100 "''p1''" "storeWith publishedPost usedIdea" publishedPost "''i1''" usedIdea]
    delete_guards [of 100 "''p1''" "storeWith draftPost freshIdea" draftPost "''i2''" freshIdea]
  show ?thesis by blast
qed

text \<open>
  The error in both refusals is a \<open>ValidationError\<close> (code \<open>VALIDATION_ERROR\<close>, HTTP 400),
  not the \<open>ConflictError\<close> of the error module (code \<open>CONFLICT\<close>, HTTP 409).
\<close>

theorem delete_refusal_is_not_conflict:
  "status publishedPost = PUBLISHED
   \<and> isl (fst (deletePost 100 ''p1'' (storeWith publishedPost usedIdea)))
   \<and> error_code (projl (fst (deletePost 100 ''p1'' (storeWith publishedPost usedIdea))))
        = ''VALIDATION_ERROR''
   \<and> error_code (projl (fst (deletePost 100 ''p1'' (storeWith publishedPost usedIdea))))
        \<noteq> error_code (ConflictError ''Cannot delete a published post'')
   \<and> idea_status usedIdea = USED
   \<and> isl (fst (deleteIdea ''i1'' (storeWith publishedPost usedIdea)))
   \<and> error_code (projl (fst (deleteIdea ''i1'' (storeWith publishedPost usedIdea))))
        = ''VALIDATION_ERROR''
   \<and> statusCode (projl (fst (deleteIdea ''i1'' (storeWith publishedPost usedIdea)))) = 400"
  by code_simp

section \<open>Status transitions\<close>

text \<open>
  C1 (as the code has it). Let \<open>post\<close> be the post that the service reads for \<open>pid\<close>. If
  the pair (status of \<open>post\<close>, requested status) is not in the transition table of the
  specification, which includes every same-status pair other than PUBLISHED to
  PUBLISHED, then \<open>updatePostStatus\<close> fails with the invalid-transition error (a
  \<open>ValidationError\<close> whose message names both statuses) and the post and idea collections
  are left as they were. If the pair is in the table, the transition validation accepts
  it, and what the request does next depends on the post's owning idea, which
  \<open>updatePost\<close> looks up before it writes:
  \<^item> when the stored document has the status that was read, names an idea that is
    stored, and every unexpired cache entry under that idea's key holds an idea with
    that id, the request succeeds and the returned and stored status is the requested
    one;
  \<^item> when the stored document names no idea, the request fails with the \<open>NotFoundError\<close>
    "has no idea ID" and the posts are left as they were;
  \<^item> when the stored document names an idea that is neither stored nor held by an
    unexpired cache entry, the request fails with the \<open>NotFoundError\<close> for the idea and
    the posts are left as they were.
\<close>

theorem transition_table_enforced:
  assumes "fst (getPostById now pid s) = Inr post"
  shows "((status post, s_status req) \<notin> set spec_transition_table \<longrightarrow>
            fst (updatePostStatus now pid req s)
              = Inl (ValidationError (''Invalid status transition from ''
                       @ postStatusName (status post) @ '' to '' @ postStatusName (s_status req)))
            \<and> posts (snd (updatePostStatus now pid req s)) = posts s
            \<and> ideas (snd (updatePostStatus now pid req s)) = ideas s)
       \<and> ((status post, s_status req) \<in> set spec_transition_table \<longrightarrow>
            validateStatusTransition (status post) (s_status req) = Inr ()
            \<and> (map_of (posts s) pid = Some d \<and> status d = status post
                 \<and> post_ideaId d \<noteq> [] \<and> map_of (ideas s) (post_ideaId d) = Some i
                 \<and> list_all (holdsIdea (post_ideaId d)) (liveIdeaEntries now (post_ideaId d) s) \<longrightarrow>
               (\<exists>p'. fst (updatePostStatus now pid req s) = Inr p' \<and> status p' = s_status req
                  \<and> map_option status (map_of (posts (snd (updatePostStatus now pid req s))) pid)
                      = Some (s_status req)))
            \<and> (map_of (posts s) pid = Some d \<and> post_ideaId d = [] \<longrightarrow>
               fst (updatePostStatus now pid req s)
                 = Inl (NotFoundError (''Post with ID '' @ quoted pid @ '' has no idea ID''))
               \<and> posts (snd (updatePostStatus now pid req s)) = posts s)
            \<and> (map_of (posts s) pid = Some d \<and> post_ideaId d \<noteq> []
                 \<and> map_of (ideas s) (post_ideaId d) = None
                 \<and> liveIdeaEntries now (post_ideaId d) s = [] \<longrightarrow>
               fst (updatePostStatus now pid req s) = Inl (NotFoundError ''Idea'')
               \<and> posts (snd (updatePostStatus now pid req s)) = posts s))"
proof (intro conjI impI)
  assume n: "(status post, s_status req) \<notin> set spec_transition_table"
  from assms obtain s1 where g1: "getPostById now pid s = (Inr post, s1)"
    and p1: "posts s1 = posts s" and i1: "ideas s1 = ideas s"
    by (auto elim: getPostById_split)
  from n have v: "validateStatusTransition (status post) (s_status req)
                    = Inl (ValidationError (''Invalid status transition from ''
                       @ postStatusName (status post) @ '' to '' @ postStatusName (s_status req)))"
    by (simp add: table_agrees validateStatusTransition_def)
  have r: "updatePostStatus now pid req s
             = (Inl (ValidationError (''Invalid status transition from ''
                       @ postStatusName (status post) @ '' to '' @ postStatusName (s_status req))),
                s1\<lparr>errlog := errlog s1 @ [''Failed to update post status:'']\<rparr>)"
    unfolding updatePostStatus_def
    by (simp add: logged_def bind_def g1 v liftResult_def)
  show "fst (updatePostStatus now pid req s)
              = Inl (ValidationError (''Invalid status transition from ''
                       @ postStatusName (status post) @ '' to '' @ postStatusName (s_status req)))"
    by (simp add: r)
  show "posts (snd (updatePostStatus now pid req s)) = posts s" by (simp add: r p1)
  show "ideas (snd (updatePostStatus now pid req s)) = ideas s" by (simp add: r i1)
next
  assume y: "(status post, s_status req) \<in> set spec_transition_table"
  then show "validateStatusTransition (status post) (s_status req) = Inr ()"
    by (simp add: table_agrees validateStatusTransition_def)
next
  assume y: "(status post, s_status req) \<in> set spec_transition_table"
  assume c: "map_of (posts s) pid = Some d \<and> status d = status post
                 \<and> post_ideaId d \<noteq> [] \<and> map_of (ideas s) (post_ideaId d) = Some i
                 \<and> list_all (holdsIdea (post_ideaId d)) (liveIdeaEntries now (post_ideaId d) s)"
  from y have "s_status req \<in> set (validTransitions (status post))"
    by (simp add: table_agrees)
  with c assms show "\<exists>p'. fst (updatePostStatus now pid req s) = Inr p' \<and> status p' = s_status req
                  \<and> map_option status (map_of (posts (snd (updatePostStatus now pid req s))) pid)
                      = Some (s_status req)"
    by (intro updatePostStatus_accepts [where d = d and i = i and post = post]) simp_all
next
  assume y: "(status post, s_status req) \<in> set spec_transition_table"
  assume c: "map_of (posts s) pid = Some d \<and> post_ideaId d = []"
  from y have v: "s_status req \<in> set (validTransitions (status post))"
    by (simp add: table_agrees)
  from c updatePostStatus_no_idea [OF assms v, of d]
  show "fst (updatePostStatus now pid req s)
          = Inl (NotFoundError (''Post with ID '' @ quoted pid @ '' has no idea ID''))"
    and "posts (snd (updatePostStatus now pid req s)) = posts s"
    by simp_all
next
  assume y: "(status post, s_status req) \<in> set spec_transition_table"
  assume c: "map_of (posts s) pid = Some d \<and> post_ideaId d \<noteq> []
                 \<and> map_of (ideas s) (post_ideaId d) = None
                 \<and> liveIdeaEntries now (post_ideaId d) s = []"
  from y have v: "s_status req \<in> set (validTransitions (status post))"
    by (simp add: table_agrees)
  from c updatePostStatus_missing_idea [OF assms v, of d]
  show "fst (updatePostStatus now pid req s) = Inl (NotFoundError ''Idea'')"
    and "posts (snd (updatePostStatus now pid req s)) = posts s"
    by simp_all
qed

theorem transition_table_enforced_witness:
  "fst (getPostById 100 ''p1'' (storeWith briefPost freshIdea)) = Inr briefPost
   \<and> (status briefPost, s_status sameStatusRequest) \<notin> set spec_transition_table
   \<and> fst (updatePostStatus 100 ''p1'' sameStatusRequest (storeWith briefPost freshIdea))
       = Inl (ValidationError ''Invalid status transition from BRIEF to BRIEF'')
   \<and> posts (snd (updatePostStatus 100 ''p1'' sameStatusRequest (storeWith briefPost freshIdea)))
       = posts (storeWith briefPost freshIdea)
   \<and> fst (getPostById 100 ''p1'' warmStore) = Inr briefPost
   \<and> (status briefPost, s_status outlineRequest) \<in> set spec_transition_table
   \<and> map_of (posts warmStore) ''p1'' = Some briefPost
   \<and> post_ideaId briefPost \<noteq> []
   \<and> map_of (ideas warmStore) (post_ideaId briefPost) = Some freshIdea
   \<and> liveIdeaEntries 100 (post_ideaId briefPost) warmStore \<noteq> []
   \<and> list_all (holdsIdea (post_ideaId briefPost)) (liveIdeaEntries 100 (post_ideaId briefPost) warmStore)
   \<and> map_option status
        (map_of (posts (snd (updatePostStatus 100 ''p1'' outlineRequest warmStore))) ''p1'')
       = Some OUTLINE
   \<and> fst (getPostById 100 ''p1'' (storeWith orphanBrief freshIdea)) = Inr orphanBrief
   \<and> (status orphanBrief, s_status outlineRequest) \<in> set spec_transition_table
   \<and> map_of (posts (storeWith orphanBrief freshIdea)) ''p1'' = Some orphanBrief
   \<and> post_ideaId orphanBrief = []
   \<and> fst (updatePostStatus 100 ''p1'' outlineRequest (storeWith orphanBrief freshIdea))
       = Inl (NotFoundError (''Post with ID '' @ quoted ''p1'' @ '' has no idea ID''))
   \<and> fst (getPostById 100 ''p1'' (storeWith strayPost freshIdea)) = Inr strayPost
   \<and> (status strayPost, s_status outlineRequest) \<in> set spec_transition_table
   \<and> map_of (posts (storeWith strayPost freshIdea)) ''p1'' = Some strayPost
   \<and> post_ideaId strayPost \<noteq> []
   \<and> map_of (ideas (storeWith strayPost freshIdea)) (post_ideaId strayPost) = None
   \<and> liveIdeaEntries 100 (post_ideaId strayPost) (storeWith strayPost freshIdea) = []
   \<and> fst (updatePostStatus 100 ''p1'' outlineRequest (storeWith strayPost freshIdea))
       = Inl (NotFoundError ''Idea'')"
proof -
  have g: "fst (getPostById 100 ''p1'' (storeWith briefPost freshIdea)) = Inr briefPost"
    by code_simp
  have n: "(status briefPost, s_status sameStatusRequest) \<notin> set spec_transition_table"
    and sn: "status briefPost = BRIEF" "s_status sameStatusRequest = BRIEF"
    by code_simp+
  have gw: "fst (getPostById 100 ''p1'' warmStore) = Inr briefPost"
    by code_simp
  have y: "(status briefPost, s_status outlineRequest) \<in> set spec_transition_table"
    by code_simp
  have c: "map_of (posts warmStore) ''p1'' = Some briefPost
           \<and> post_ideaId briefPost \<noteq> []
           \<and> map_of (ideas warmStore) (post_ideaId briefPost) = Some freshIdea
           \<and> liveIdeaEntries 100 (post_ideaId briefPost) warmStore \<noteq> []
           \<and> list_all (holdsIdea (post_ideaId briefPost))
                (liveIdeaEntries 100 (post_ideaId briefPost) warmStore)"
    by code_simp
  have go: "fst (getPostById 100 ''p1'' (storeWith orphanBrief freshIdea)) = Inr orphanBrief"
    by code_simp
  have yo: "(status orphanBrief, s_status outlineRequest) \<in> set spec_transition_table"
    by code_simp
  have co: "map_of (posts (storeWith orphanBrief freshIdea)) ''p1'' = Some orphanBrief
            \<and> post_ideaId orphanBrief = []"
    by code_simp
  have gs: "fst (getPostById 100 ''p1'' (storeWith strayPost freshIdea)) = Inr strayPost"
    by code_simp
  have ys: "(status strayPost, s_status outlineRequest) \<in> set spec_transition_table"
    by code_simp
  have cs: "map_of (posts (storeWith strayPost freshIdea)) ''p1'' = Some strayPost
            \<and> post_ideaId strayPost \<noteq> []
            \<and> map_of (ideas (storeWith strayPost freshIdea)) (post_ideaId strayPost) = None
            \<and> liveIdeaEntries 100 (post_ideaId strayPost) (storeWith strayPost freshIdea) = []"
    by code_simp
  have so: "s_status outlineRequest = OUTLINE" by code_simp
  from transition_table_enforced [OF g, of sameStatusRequest] n
  have r1: "fst (updatePostStatus 100 ''p1'' sameStatusRequest (storeWith briefPost freshIdea))
       = Inl (ValidationError ''Invalid status transition from BRIEF to BRIEF'')"
    and r2: "posts (snd (updatePostStatus 100 ''p1'' sameStatusRequest (storeWith briefPost freshIdea)))
       = posts (storeWith briefPost freshIdea)"
    by (simp_all add: sn)
  from transition_table_enforced [OF gw, where req = outlineRequest and d = briefPost and i = freshIdea]
       y c
  have r3: "map_option status
        (map_of (posts (snd (updatePostStatus 100 ''p1'' outlineRequest warmStore))) ''p1'')
       = Some OUTLINE"
    by (auto simp: so)
  from transition_table_enforced [OF go, where req = outlineRequest and d = orphanBrief] yo co
  have r4: "fst (updatePostStatus 100 ''p1'' outlineRequest (storeWith orphanBrief freshIdea))
       = Inl (NotFoundError (''Post with ID '' @ quoted ''p1'' @ '' has no idea ID''))"
    by blast
  from transition_table_enforced [OF gs, where req = outlineRequest and d = strayPost] ys cs
  have r5: "fst (updatePostStatus 100 ''p1'' outlineRequest (storeWith strayPost freshIdea))
       = Inl (NotFoundError ''Idea'')"
    by blast
  from g n gw y c go yo co gs ys cs r1 r2 r3 r4 r5 show ?thesis by blast
qed

text \<open>
  A post created without an idea cannot leave \<open>BRIEF\<close> through \<open>updatePostStatus\<close>: the
  pair BRIEF to OUTLINE is in the table, and the request is refused with a
  \<open>NotFoundError\<close>, leaving the stored status as it was.
\<close>

theorem table_pair_refused_without_idea:
  "map_option status (map_of (posts afterCreate) ''p1'') = Some BRIEF
   \<and> s_status outlineRequest = OUTLINE
   \<and> (BRIEF, OUTLINE) \<in> set spec_transition_table
   \<and> fst (updatePostStatus 20 ''p1'' outlineRequest afterCreate)
       = Inl (NotFoundError (''Post with ID '' @ quoted ''p1'' @ '' has no idea ID''))
   \<and> map_option status
        (map_of (posts (snd (updatePostStatus 20 ''p1'' outlineRequest afterCreate))) ''p1'')
       = Some BRIEF"
  by code_simp

section \<open>Publication time\<close>

text \<open>
  C2. For a successful \<open>updatePostStatus\<close> to \<open>PUBLISHED\<close>: if the post was read in a
  status other than \<open>PUBLISHED\<close>, the returned post has \<open>publishedAt\<close> equal to the current
  time; if it was read as \<open>PUBLISHED\<close>, \<open>publishedAt\<close> is what the stored document had.
  In both cases brief, outline, draft and seo are those of the stored document, and the
  returned post is what is stored afterwards.
\<close>

theorem publishedAt_set_once:
  assumes "fst (updatePostStatus now pid req s) = Inr p'"
    and "s_status req = PUBLISHED"
    and "fst (getPostById now pid s) = Inr post"
    and "map_of (posts s) pid = Some d"
  shows "(status post \<noteq> PUBLISHED \<longrightarrow> publishedAt p' = Some now)
       \<and> (status post = PUBLISHED \<longrightarrow> publishedAt p' = publishedAt d)
       \<and> brief p' = brief d \<and> outline p' = outline d \<and> draft p' = draft d \<and> seo p' = seo d
       \<and> status p' = PUBLISHED
       \<and> map_of (posts (snd (updatePostStatus now pid req s))) pid = Some (p'\<lparr>post_id := post_id d\<rparr>)"
proof -
  from assms(1) obtain s' where r: "updatePostStatus now pid req s = (Inr p', s')"
    by (cases "updatePostStatus now pid req s") auto
  from updatePostStatus_Inr [OF r] assms(3,4) have
    p': "p' = (applyPostUpdate (statusUpdateData now (status post) req) now d)\<lparr>post_id := pid\<rparr>" and
    st: "map_of (posts s') pid = Some (applyPostUpdate (statusUpdateData now (status post) req) now d)"
    by auto
  have e: "p'\<lparr>post_id := post_id d\<rparr> = applyPostUpdate (statusUpdateData now (status post) req) now d"
    using status_update_fields [of now "status post" req d] by (simp add: p')
  have f: "publishedAt p' = (if status post \<noteq> PUBLISHED then Some now else publishedAt d)"
    "brief p' = brief d" "outline p' = outline d" "draft p' = draft d" "seo p' = seo d"
    "status p' = PUBLISHED"
    using status_update_fields [of now "status post" req d] assms(2) by (simp_all add: p')
  from st e have "map_of (posts (snd (updatePostStatus now pid req s))) pid
                    = Some (p'\<lparr>post_id := post_id d\<rparr>)"
    by (simp add: r)
  with f show ?thesis by simp
qed

theorem publishedAt_set_once_witness:
  "fst (updatePostStatus 100 ''p1'' publishRequest (storeWith approvedPost heldIdea)) = Inr firstPublished
   \<and> s_status publishRequest = PUBLISHED
   \<and> fst (getPostById 100 ''p1'' (storeWith approvedPost heldIdea)) = Inr approvedPost
   \<and> map_of (posts (storeWith approvedPost heldIdea)) ''p1'' = Some approvedPost
   \<and> status approvedPost \<noteq> PUBLISHED
   \<and> publishedAt firstPublished = Some 100
   \<and> draft firstPublished = draft approvedPost
   \<and> fst (updatePostStatus 200 ''p1'' publishRequest afterFirstPublish)
       = Inr (firstPublished\<lparr>updatedAt := 200\<rparr>)
   \<and> fst (getPostById 200 ''p1'' afterFirstPublish) = Inr firstPublished
   \<and> map_of (posts afterFirstPublish) ''p1'' = Some firstPublished
   \<and> status firstPublished = PUBLISHED
   \<and> publishedAt (firstPublished\<lparr>updatedAt := 200\<rparr>) = publishedAt firstPublished"
proof -
  have a1: "fst (updatePostStatus 100 ''p1'' publishRequest (storeWith approvedPost heldIdea))
              = Inr firstPublished"
    by code_simp
  have a2: "s_status publishRequest = PUBLISHED" by code_simp
  have a3: "fst (getPostById 100 ''p1'' (storeWith approvedPost heldIdea)) = Inr approvedPost"
    by code_simp
  have a4: "map_of (posts (storeWith approvedPost heldIdea)) ''p1'' = Some approvedPost"
    by code_simp
  have a5: "status approvedPost \<noteq> PUBLISHED" by code_simp
  have b1: "fst (updatePostStatus 200 ''p1'' publishRequest afterFirstPublish)
              = Inr (firstPublished\<lparr>updatedAt := 200\<rparr>)"
    by code_simp
  have b3: "fst (getPostById 200 ''p1'' afterFirstPublish) = Inr firstPublished"
    by code_simp
  have b4: "map_of (posts afterFirstPublish) ''p1'' = Some firstPublished"
    by code_simp
  have b5: "status firstPublished = PUBLISHED" by code_simp
  from publishedAt_set_once [OF a1 a2 a3 a4] a5
  have r1: "publishedAt firstPublished = Some 100" "draft firstPublished = draft approvedPost"
    by blast+
  from publishedAt_set_once [OF b1 a2 b3 b4] b5
  have r2: "publishedAt (firstPublished\<lparr>updatedAt := 200\<rparr>) = publishedAt firstPublished"
    by blast
  from a1 a2 a3 a4 a5 b1 b3 b4 b5 r1 r2 show ?thesis by blast
qed

section \<open>Marking ideas as used\<close>

text \<open>
  C10. \<open>markIdeaAsUsed\<close> succeeds only on a stored idea with status \<open>UNUSED\<close>, whose status
  it sets to \<open>USED\<close>; on an idea with status \<open>USED\<close> or \<open>PROCESSING\<close> it fails with a
  \<open>ValidationError\<close> and changes no idea. An idea returned by \<open>pickNextIdea\<close> is stored
  with status \<open>PROCESSING\<close>. So when a post read in a status other than \<open>PUBLISHED\<close>, whose
  idea is stored with status \<open>PROCESSING\<close>, is moved to \<open>PUBLISHED\<close>, the attempt to mark
  the idea changes nothing but the error log, which receives the two messages of the
  failed attempt, and \<open>updatePostStatus\<close> goes on to \<open>updatePost\<close> as if nothing had failed.
\<close>

theorem propagation_fails_for_held_idea:
  "(fst (markIdeaAsUsed iid s) = Inr () \<longrightarrow>
      (\<exists>i. map_of (ideas s) iid = Some i \<and> idea_status i = UNUSED)
      \<and> map_option idea_status (map_of (ideas (snd (markIdeaAsUsed iid s))) iid) = Some USED)
   \<and> (map_of (ideas s) iid = Some i \<and> idea_status i = USED \<longrightarrow>
      fst (markIdeaAsUsed iid s) = Inl (ValidationError ''Idea is already used'')
      \<and> ideas (snd (markIdeaAsUsed iid s)) = ideas s)
   \<and> (map_of (ideas s) iid = Some i \<and> idea_status i = PROCESSING \<longrightarrow>
      fst (markIdeaAsUsed iid s) = Inl (ValidationError ''Idea is already processing'')
      \<and> ideas (snd (markIdeaAsUsed iid s)) = ideas s)
   \<and> (fst (pickNextIdea now s) = Inr (Some picked) \<longrightarrow>
      map_option idea_status (map_of (ideas (snd (pickNextIdea now s))) (idea_id picked))
        = Some PROCESSING)
   \<and> (fst (getPostById now pid s) = Inr post \<and> status post \<noteq> PUBLISHED
        \<and> s_status req = PUBLISHED \<and> PUBLISHED \<in> set (validTransitions (status post))
        \<and> post_ideaId post \<noteq> [] \<and> map_of (ideas s) (post_ideaId post) = Some held
        \<and> idea_status held = PROCESSING \<longrightarrow>
      updatePostStatus now pid req s
        = logged ''Failed to update post status:''
            (updatePost now pid (statusUpdateData now (status post) req))
            ((snd (getPostById now pid s))
               \<lparr>errlog := errlog (snd (getPostById now pid s))
                           @ [''Failed to mark idea as used:'', ''Failed to mark idea as used'']\<rparr>))"
proof (intro conjI impI)
  assume "fst (markIdeaAsUsed iid s) = Inr ()"
  from markIdeaAsUsed_Inr [OF this]
  show "\<exists>i. map_of (ideas s) iid = Some i \<and> idea_status i = UNUSED"
    and "map_option idea_status (map_of (ideas (snd (markIdeaAsUsed iid s))) iid) = Some USED"
    by simp_all
next
  assume h: "map_of (ideas s) iid = Some i \<and> idea_status i = USED"
  then have "markIdeaAsUsed iid s
           = (Inl (ValidationError ''Idea is already used''),
              s\<lparr>errlog := errlog s @ [''Failed to mark idea as used:'']\<rparr>)"
    using markIdeaAsUsed_refuses [of s iid i] by simp
  then show "fst (markIdeaAsUsed iid s) = Inl (ValidationError ''Idea is already used'')"
    and "ideas (snd (markIdeaAsUsed iid s)) = ideas s"
    by simp_all
next
  assume h: "map_of (ideas s) iid = Some i \<and> idea_status i = PROCESSING"
  then have "markIdeaAsUsed iid s
           = (Inl (ValidationError ''Idea is already processing''),
              s\<lparr>errlog := errlog s @ [''Failed to mark idea as used:'']\<rparr>)"
    using markIdeaAsUsed_refuses [of s iid i] by simp
  then show "fst (markIdeaAsUsed iid s) = Inl (ValidationError ''Idea is already processing'')"
    and "ideas (snd (markIdeaAsUsed iid s)) = ideas s"
    by simp_all
next
  assume "fst (pickNextIdea now s) = Inr (Some picked)"
  then show "map_option idea_status (map_of (ideas (snd (pickNextIdea now s))) (idea_id picked))
        = Some PROCESSING"
    by (rule pickNextIdea_holds)
next
  assume h: "fst (getPostById now pid s) = Inr post \<and> status post \<noteq> PUBLISHED
        \<and> s_status req = PUBLISHED \<and> PUBLISHED \<in> set (validTransitions (status post))
        \<and> post_ideaId post \<noteq> [] \<and> map_of (ideas s) (post_ideaId post) = Some held
        \<and> idea_status held = PROCESSING"
  then obtain s1 where g: "getPostById now pid s = (Inr post, s1)" and i1: "ideas s1 = ideas s"
    by (auto elim: getPostById_split)
  from h i1 have m: "markIdeaAsUsed (post_ideaId post) s1
           = (Inl (ValidationError ''Idea is already processing''),
              s1\<lparr>errlog := errlog s1 @ [''Failed to mark idea as used:'']\<rparr>)"
    using markIdeaAsUsed_refuses [of s1 "post_ideaId post" held] by simp
  have b: "markIdeaAsUsedBestEffort (post_ideaId post) s1
           = (Inr (), s1\<lparr>errlog := errlog s1 @ [''Failed to mark idea as used:'',
                                                   ''Failed to mark idea as used'']\<rparr>)"
    by (simp add: markIdeaAsUsedBestEffort_def m)
  from h have v: "validateStatusTransition (status post) PUBLISHED = Inr ()"
    by (simp add: validateStatusTransition_def)
  show "updatePostStatus now pid req s
        = logged ''Failed to update post status:''
            (updatePost now pid (statusUpdateData now (status post) req))
            ((snd (getPostById now pid s))
               \<lparr>errlog := errlog (snd (getPostById now pid s))
                           @ [''Failed to mark idea as used:'', ''Failed to mark idea as used'']\<rparr>)"
    using h by (simp add: updatePostStatus_def logged_def bind_def g v b liftResult_def)
qed

theorem propagation_fails_for_held_idea_witness:
  "fst (markIdeaAsUsed ''i2'' (storeWith draftPost freshIdea)) = Inr ()
   \<and> map_option idea_status
        (map_of (ideas (snd (markIdeaAsUsed ''i2'' (storeWith draftPost freshIdea)))) ''i2'') = Some USED
   \<and> map_of (ideas (storeWith publishedPost usedIdea)) ''i1'' = Some usedIdea
   \<and> idea_status usedIdea = USED
   \<and> fst (markIdeaAsUsed ''i1'' (storeWith publishedPost usedIdea))
       = Inl (ValidationError ''Idea is already used'')
   \<and> map_of (ideas (storeWith approvedPost heldIdea)) ''i2'' = Some heldIdea
   \<and> idea_status heldIdea = PROCESSING
   \<and> fst (markIdeaAsUsed ''i2'' (storeWith approvedPost heldIdea))
       = Inl (ValidationError ''Idea is already processing'')
   \<and> fst (pickNextIdea 100 (storeWith draftPost freshIdea)) = Inr (Some freshIdea)
   \<and> map_option idea_status
        (map_of (ideas (snd (pickNextIdea 100 (storeWith draftPost freshIdea)))) (idea_id freshIdea))
       = Some PROCESSING
   \<and> fst (getPostById 100 ''p1'' (storeWith approvedPost heldIdea)) = Inr approvedPost
   \<and> status approvedPost \<noteq> PUBLISHED
   \<and> s_status publishRequest = PUBLISHED
   \<and> PUBLISHED \<in> set (validTransitions (status approvedPost))
   \<and> post_ideaId approvedPost \<noteq> []
   \<and> map_of (ideas (storeWith approvedPost heldIdea)) (post_ideaId approvedPost) = Some heldIdea
   \<and> updatePostStatus 100 ''p1'' publishRequest (storeWith approvedPost heldIdea)
        = logged ''Failed to update post status:''
            (updatePost 100 ''p1'' (statusUpdateData 100 (status approvedPost) publishRequest))
            ((snd (getPostById 100 ''p1'' (storeWith approvedPost heldIdea)))
               \<lparr>errlog := errlog (snd (getPostById 100 ''p1'' (storeWith approvedPost heldIdea)))
                           @ [''Failed to mark idea as used:'', ''Failed to mark idea as used'']\<rparr>)"
proof -
  have a: "fst (markIdeaAsUsed ''i2'' (storeWith draftPost freshIdea)) = Inr ()"
    by code_simp
  have b: "map_of (ideas (storeWith publishedPost usedIdea)) ''i1'' = Some usedIdea
           \<and> idea_status usedIdea = USED"
    by code_simp
  have c: "map_of (ideas (storeWith approvedPost heldIdea)) ''i2'' = Some heldIdea
           \<and> idea_status heldIdea = PROCESSING"
    by code_simp
  have d: "fst (pickNextIdea 100 (storeWith draftPost freshIdea)) = Inr (Some freshIdea)"
    by code_simp
  have e: "fst (getPostById 100 ''p1'' (storeWith approvedPost heldIdea)) = Inr approvedPost
           \<and> status approvedPost \<noteq> PUBLISHED
           \<and> s_status publishRequest = PUBLISHED
           \<and> PUBLISHED \<in> set (validTransitions (status approvedPost))
           \<and> post_ideaId approvedPost \<noteq> []
           \<and> map_of (ideas (storeWith approvedPost heldIdea)) (post_ideaId approvedPost) = Some heldIdea
           \<and> idea_status heldIdea = PROCESSING"
    by code_simp
  note t1 = propagation_fails_for_held_idea
              [where iid = "''i2''" and s = "storeWith draftPost freshIdea" and now = 100
                 and picked = freshIdea]
  note t2 = propagation_fails_for_held_idea
              [where iid = "''i1''" and s = "storeWith publishedPost usedIdea" and i = usedIdea]
  note t3 = propagation_fails_for_held_idea
              [where iid = "''i2''" and s = "storeWith approvedPost heldIdea" and i = heldIdea
                 and now = 100 and pid = "''p1''" and post = approvedPost and req = publishRequest
                 and held = heldIdea]
  from t1 a have r1: "map_option idea_status
        (map_of (ideas (snd (markIdeaAsUsed ''i2'' (storeWith draftPost freshIdea)))) ''i2'') = Some USED"
    by blast
  from t2 b have r2: "fst (markIdeaAsUsed ''i1'' (storeWith publishedPost usedIdea))
       = Inl (ValidationError ''Idea is already used'')"
    by blast
  from t3 c have r3: "fst (markIdeaAsUsed ''i2'' (storeWith approvedPost heldIdea))
       = Inl (ValidationError ''Idea is already processing'')"
    by blast
  from t1 d have r4: "map_option idea_status
        (map_of (ideas (snd (pickNextIdea 100 (storeWith draftPost freshIdea)))) (idea_id freshIdea))
       = Some PROCESSING"
    by blast
  from t3 e have r5: "updatePostStatus 100 ''p1'' publishRequest (storeWith approvedPost heldIdea)
        = logged ''Failed to update post status:''
            (updatePost 100 ''p1'' (statusUpdateData 100 (status approvedPost) publishRequest))
            ((snd (getPostById 100 ''p1'' (storeWith approvedPost heldIdea)))
               \<lparr>errlog := errlog (snd (getPostById 100 ''p1'' (storeWith approvedPost heldIdea)))
                           @ [''Failed to mark idea as used:'', ''Failed to mark idea as used'']\<rparr>)"
    by blast
  from a b c d e r1 r2 r3 r4 r5 show ?thesis by blast
qed

section \<open>Publishing\<close>

text \<open>
  C4 (as the code has it). \<open>publishPost\<close> succeeds only when the post was read with status
  \<open>APPROVED\<close> or \<open>SCHEDULED\<close>, and then the returned and the stored status are \<open>PUBLISHED\<close>.
  The owning idea is looked up before the status is checked: when that lookup fails,
  \<open>publishPost\<close> fails with the lookup's error whatever the status; when it succeeds and
  the status is neither \<open>APPROVED\<close> nor \<open>SCHEDULED\<close>, \<open>publishPost\<close> fails with the
  \<open>ValidationError\<close> "Only approved or scheduled posts can be published" and changes
  neither collection. When the status is \<open>APPROVED\<close> or \<open>SCHEDULED\<close> and the idea could be
  marked \<open>USED\<close>, the result is that of \<open>updatePostStatus\<close> with target \<open>PUBLISHED\<close> and
  \<open>scheduledAt\<close> now.
\<close>

theorem publishPost_guard:
  "(fst (publishPost now pid s) = Inr p \<and> fst (getPostById now pid s) = Inr post \<longrightarrow>
      (status post = APPROVED \<or> status post = SCHEDULED) \<and> status p = PUBLISHED
      \<and> map_option status (map_of (posts (snd (publishPost now pid s))) pid) = Some PUBLISHED)
   \<and> (fst (getPostById now pid s) = Inr post
        \<and> fst (getIdeaByPostId now pid (snd (getPostById now pid s))) = Inr idea
        \<and> status post \<noteq> APPROVED \<and> status post \<noteq> SCHEDULED \<longrightarrow>
      fst (publishPost now pid s)
        = Inl (ValidationError ''Only approved or scheduled posts can be published'')
      \<and> posts (snd (publishPost now pid s)) = posts s
      \<and> ideas (snd (publishPost now pid s)) = ideas s)
   \<and> (fst (getPostById now pid s) = Inr post
        \<and> fst (getIdeaByPostId now pid (snd (getPostById now pid s))) = Inl e \<longrightarrow>
      fst (publishPost now pid s) = Inl e)
   \<and> (fst (getPostById now pid s) = Inr post
        \<and> fst (getIdeaByPostId now pid (snd (getPostById now pid s))) = Inr idea
        \<and> (status post = APPROVED \<or> status post = SCHEDULED)
        \<and> fst (updateIdea now (idea_id idea) (noIdeaUpdate\<lparr>ui_status := Some USED\<rparr>)
                 (snd (getIdeaByPostId now pid (snd (getPostById now pid s))))) = Inr marked \<longrightarrow>
      publishPost now pid s
        = logged ''Failed to publish post:''
            (updatePostStatus now pid
               \<lparr>s_status = PUBLISHED, s_scheduledAt = At now, s_errorMessage = None\<rparr>)
            (snd (updateIdea now (idea_id idea) (noIdeaUpdate\<lparr>ui_status := Some USED\<rparr>)
                   (snd (getIdeaByPostId now pid (snd (getPostById now pid s)))))))"
proof (intro conjI impI)
  assume h: "fst (publishPost now pid s) = Inr p \<and> fst (getPostById now pid s) = Inr post"
  then obtain s' where r: "publishPost now pid s = (Inr p, s')"
    by (cases "publishPost now pid s") auto
  from publishPost_Inr [OF r] h obtain s3 where
    ok: "status post = APPROVED \<or> status post = SCHEDULED" and
    u: "updatePostStatus now pid
              \<lparr>s_status = PUBLISHED, s_scheduledAt = At now, s_errorMessage = None\<rparr> s3 = (Inr p, s')"
    by auto
  from ok show "status post = APPROVED \<or> status post = SCHEDULED" .
  from updatePostStatus_Inr [OF u] obtain cur d where
    "p = (applyPostUpdate (statusUpdateData now cur
            \<lparr>s_status = PUBLISHED, s_scheduledAt = At now, s_errorMessage = None\<rparr>) now d)\<lparr>post_id := pid\<rparr>"
    and "map_of (posts s') pid = Some (applyPostUpdate (statusUpdateData now cur
            \<lparr>s_status = PUBLISHED, s_scheduledAt = At now, s_errorMessage = None\<rparr>) now d)"
    by blast
  with status_update_fields [of now cur
        "\<lparr>s_status = PUBLISHED, s_scheduledAt = At now, s_errorMessage = None\<rparr>" d] r
  show "status p = PUBLISHED"
    and "map_option status (map_of (posts (snd (publishPost now pid s))) pid) = Some PUBLISHED"
    by simp_all
next
  assume h: "fst (getPostById now pid s) = Inr post
        \<and> fst (getIdeaByPostId now pid (snd (getPostById now pid s))) = Inr idea
        \<and> status post \<noteq> APPROVED \<and> status post \<noteq> SCHEDULED"
  then obtain s1 where g1: "getPostById now pid s = (Inr post, s1)"
    and p1: "posts s1 = posts s" and i1: "ideas s1 = ideas s"
    by (auto elim: getPostById_split)
  from h g1 obtain s2 where g2: "getIdeaByPostId now pid s1 = (Inr idea, s2)"
    by (cases "getIdeaByPostId now pid s1") auto
  from g2 getIdeaByPostId_frame [of now pid s1] have f2: "posts s2 = posts s1" "ideas s2 = ideas s1"
    by simp_all
  from h have r: "publishPost now pid s
      = (Inl (ValidationError ''Only approved or scheduled posts can be published''),
         s2\<lparr>errlog := errlog s2 @ [''Failed to publish post:'']\<rparr>)"
    unfolding publishPost_def by (simp add: logged_def bind_def g1 g2 throw_def)
  show "fst (publishPost now pid s)
        = Inl (ValidationError ''Only approved or scheduled posts can be published'')"
    by (simp add: r)
  show "posts (snd (publishPost now pid s)) = posts s" by (simp add: r f2 p1)
  show "ideas (snd (publishPost now pid s)) = ideas s" by (simp add: r f2 i1)
next
  assume h: "fst (getPostById now pid s) = Inr post
        \<and> fst (getIdeaByPostId now pid (snd (getPostById now pid s))) = Inl e"
  then obtain s1 where g1: "getPostById now pid s = (Inr post, s1)"
    by (auto elim: getPostById_split)
  from h g1 obtain s2 where g2: "getIdeaByPostId now pid s1 = (Inl e, s2)"
    by (cases "getIdeaByPostId now pid s1") auto
  show "fst (publishPost now pid s) = Inl e"
    unfolding publishPost_def by (simp add: logged_def bind_def g1 g2)
next
  assume h: "fst (getPostById now pid s) = Inr post
        \<and> fst (getIdeaByPostId now pid (snd (getPostById now pid s))) = Inr idea
        \<and> (status post = APPROVED \<or> status post = SCHEDULED)
        \<and> fst (updateIdea now (idea_id idea) (noIdeaUpdate\<lparr>ui_status := Some USED\<rparr>)
                 (snd (getIdeaByPostId now pid (snd (getPostById now pid s))))) = Inr marked"
  then obtain s1 where g1: "getPostById now pid s = (Inr post, s1)"
    by (auto elim: getPostById_split)
  from h g1 obtain s2 where g2: "getIdeaByPostId now pid s1 = (Inr idea, s2)"
    by (cases "getIdeaByPostId now pid s1") auto
  from h g1 g2 obtain s3 where
    g3: "updateIdea now (idea_id idea) (noIdeaUpdate\<lparr>ui_status := Some USED\<rparr>) s2 = (Inr marked, s3)"
    by (cases "updateIdea now (idea_id idea) (noIdeaUpdate\<lparr>ui_status := Some USED\<rparr>) s2") auto
  from h show "publishPost now pid s
        = logged ''Failed to publish post:''
            (updatePostStatus now pid
               \<lparr>s_status = PUBLISHED, s_scheduledAt = At now, s_errorMessage = None\<rparr>)
            (snd (updateIdea now (idea_id idea) (noIdeaUpdate\<lparr>ui_status := Some USED\<rparr>)
                   (snd (getIdeaByPostId now pid (snd (getPostById now pid s))))))"
    unfolding publishPost_def by (auto simp: logged_def bind_def g1 g2 g3)
qed

theorem publishPost_guard_witness:
  "fst (publishPost 100 ''p1'' (storeWith approvedPost heldIdea)) = Inr publishedNow
   \<and> fst (getPostById 100 ''p1'' (storeWith approvedPost heldIdea)) = Inr approvedPost
   \<and> status approvedPost = APPROVED
   \<and> status publishedNow = PUBLISHED
   \<and> map_option status
        (map_of (posts (snd (publishPost 100 ''p1'' (storeWith approvedPost heldIdea)))) ''p1'')
       = Some PUBLISHED
   \<and> fst (getPostById 100 ''p1'' (storeWith draftPost freshIdea)) = Inr draftPost
   \<and> fst (getIdeaByPostId 100 ''p1'' (snd (getPostById 100 ''p1'' (storeWith draftPost freshIdea))))
       = Inr freshIdea
   \<and> status draftPost \<noteq> APPROVED \<and> status draftPost \<noteq> SCHEDULED
   \<and> fst (publishPost 100 ''p1'' (storeWith draftPost freshIdea))
       = Inl (ValidationError ''Only approved or scheduled posts can be published'')
   \<and> fst (getPostById 100 ''p1'' (storeWith orphanPost freshIdea)) = Inr orphanPost
   \<and> fst (getIdeaByPostId 100 ''p1'' (snd (getPostById 100 ''p1'' (storeWith orphanPost freshIdea))))
       = Inl (NotFoundError (''Post with ID '' @ quoted ''p1'' @ '' has no idea ID''))
   \<and> fst (publishPost 100 ''p1'' (storeWith orphanPost freshIdea))
       = Inl (NotFoundError (''Post with ID '' @ quoted ''p1'' @ '' has no idea ID''))
   \<and> fst (getIdeaByPostId 100 ''p1'' (snd (getPostById 100 ''p1'' (storeWith approvedPost heldIdea))))
       = Inr heldIdea
   \<and> fst (updateIdea 100 (idea_id heldIdea) (noIdeaUpdate\<lparr>ui_status := Some USED\<rparr>)
            (snd (getIdeaByPostId 100 ''p1'' (snd (getPostById 100 ''p1'' (storeWith approvedPost heldIdea))))))
       = Inr (heldIdea\<lparr>idea_status := USED, idea_updatedAt := Some 100\<rparr>)
   \<and> publishPost 100 ''p1'' (storeWith approvedPost heldIdea)
       = logged ''Failed to publish post:''
           (updatePostStatus 100 ''p1''
              \<lparr>s_status = PUBLISHED, s_scheduledAt = At 100, s_errorMessage = None\<rparr>)
           (snd (updateIdea 100 (idea_id heldIdea) (noIdeaUpdate\<lparr>ui_status := Some USED\<rparr>)
                  (snd (getIdeaByPostId 100 ''p1''
                         (snd (getPostById 100 ''p1'' (storeWith approvedPost heldIdea)))))))"
proof -
  have a: "fst (publishPost 100 ''p1'' (storeWith approvedPost heldIdea)) = Inr publishedNow
           \<and> fst (getPostById 100 ''p1'' (storeWith approvedPost heldIdea)) = Inr approvedPost"
    by code_simp
  have a': "status approvedPost = APPROVED" by code_simp
  have b: "fst (getPostById 100 ''p1'' (storeWith draftPost freshIdea)) = Inr draftPost
           \<and> fst (getIdeaByPostId 100 ''p1'' (snd (getPostById 100 ''p1'' (storeWith draftPost freshIdea))))
               = Inr freshIdea
           \<and> status draftPost \<noteq> APPROVED \<and> status draftPost \<noteq> SCHEDULED"
    by code_simp
  have c: "fst (getPostById 100 ''p1'' (storeWith orphanPost freshIdea)) = Inr orphanPost
           \<and> fst (getIdeaByPostId 100 ''p1'' (snd (getPostById 100 ''p1'' (storeWith orphanPost freshIdea))))
               = Inl (NotFoundError (''Post with ID '' @ quoted ''p1'' @ '' has no idea ID''))"
    by code_simp
  have d: "fst (getPostById 100 ''p1'' (storeWith approvedPost heldIdea)) = Inr approvedPost
           \<and> fst (getIdeaByPostId 100 ''p1'' (snd (getPostById 100 ''p1'' (storeWith approvedPost heldIdea))))
               = Inr heldIdea
           \<and> (status approvedPost = APPROVED \<or> status approvedPost = SCHEDULED)
           \<and> fst (updateIdea 100 (idea_id heldIdea) (noIdeaUpdate\<lparr>ui_status := Some USED\<rparr>)
                 (snd (getIdeaByPostId 100 ''p1'' (snd (getPostById 100 ''p1'' (storeWith approvedPost heldIdea))))))
               = Inr (heldIdea\<lparr>idea_status := USED, idea_updatedAt := Some 100\<rparr>)"
    by code_simp
  note t1 = publishPost_guard
              [where now = 100 and pid = "''p1''" and s = "storeWith approvedPost heldIdea"
                 and p = publishedNow and post = approvedPost and idea = heldIdea
                 and marked = "heldIdea\<lparr>idea_status := USED, idea_updatedAt := Some 100\<rparr>"]
  note t2 = publishPost_guard
              [where now = 100 and pid = "''p1''" and s = "storeWith draftPost freshIdea"
                 and post = draftPost and idea = freshIdea]
  note t3 = publishPost_guard
              [where now = 100 and pid = "''p1''" and s = "storeWith orphanPost freshIdea"
                 and post = orphanPost
                 and e = "NotFoundError (''Post with ID '' @ quoted ''p1'' @ '' has no idea ID'')"]
  from t1 a have r1: "status publishedNow = PUBLISHED"
    "map_option status
        (map_of (posts (snd (publishPost 100 ''p1'' (storeWith approvedPost heldIdea)))) ''p1'')
       = Some PUBLISHED"
    by blast+
  from t2 b have r2: "fst (publishPost 100 ''p1'' (storeWith draftPost freshIdea))
       = Inl (ValidationError ''Only approved or scheduled posts can be published'')"
    by blast
  from t3 c have r3: "fst (publishPost 100 ''p1'' (storeWith orphanPost freshIdea))
       = Inl (NotFoundError (''Post with ID '' @ quoted ''p1'' @ '' has no idea ID''))"
    by blast
  from t1 d have r4: "publishPost 100 ''p1'' (storeWith approvedPost heldIdea)
       = logged ''Failed to publish post:''
           (updatePostStatus 100 ''p1''
              \<lparr>s_status = PUBLISHED, s_scheduledAt = At 100, s_errorMessage = None\<rparr>)
           (snd (updateIdea 100 (idea_id heldIdea) (noIdeaUpdate\<lparr>ui_status := Some USED\<rparr>)
                  (snd (getIdeaByPostId 100 ''p1''
                         (snd (getPostById 100 ''p1'' (storeWith approvedPost heldIdea)))))))"
    by blast
  from a a' b c d r1 r2 r3 r4 show ?thesis by blast
qed

text \<open>
  A post in status \<open>DRAFT\<close> that refers to no idea: \<open>publishPost\<close> fails with a
  \<open>NotFoundError\<close>, not with the error of the status check.
\<close>

theorem publishPost_orphan_is_not_found:
  "status orphanPost = DRAFT
   \<and> fst (publishPost 100 ''p1'' (storeWith orphanPost freshIdea))
       = Inl (NotFoundError (''Post with ID '' @ quoted ''p1'' @ '' has no idea ID''))
   \<and> error_code (projl (fst (publishPost 100 ''p1'' (storeWith orphanPost freshIdea)))) = ''NOT_FOUND''
   \<and> fst (publishPost 100 ''p1'' (storeWith orphanPost freshIdea))
       \<noteq> Inl (ValidationError ''Only approved or scheduled posts can be published'')"
  by code_simp

end
